theory Spec2Isabelle
  imports Main "HOL-Library.Char_ord" "HOL-Library.List_Lexorder"
begin

section \<open>The platform: header lists and responses\<close>

text \<open>
  The dispatch shell (\<^verbatim>\<open>core/app/index.ts\<close>, class \<^verbatim>\<open>App\<close>) works on the web platform's
  \<^verbatim>\<open>Headers\<close> and \<^verbatim>\<open>Response\<close> objects. They are modelled after the Fetch standard:
  a \<^verbatim>\<open>Headers\<close> object is a header list (name/value pairs in the order they were
  appended) with a guard; names are compared byte-case-insensitively. Strings are byte
  strings: a JavaScript string with a code unit above 255 has no value here.
\<close>

definition byte_lowercase_char :: "char \<Rightarrow> char" where
  "byte_lowercase_char c =
     (case map_of (zip ''ABCDEFGHIJKLMNOPQRSTUVWXYZ'' ''abcdefghijklmnopqrstuvwxyz'') c of
        Some d \<Rightarrow> d
      | None \<Rightarrow> c)"

definition byte_lowercase :: "string \<Rightarrow> string" where
  "byte_lowercase s = map byte_lowercase_char s"

type_synonym header = "string \<times> string"

record Headers =
  header_list :: "header list"
  immutable :: bool

text \<open>The values of all headers of the list whose name matches \<open>n\<close>, in list order.\<close>

definition header_values :: "header list \<Rightarrow> string \<Rightarrow> string list" where
  "header_values hl n =
     map snd (filter (\<lambda>h. byte_lowercase (fst h) = byte_lowercase n) hl)"

text \<open>Values of one name are combined with a comma and a space between them.\<close>

fun combine_values :: "string list \<Rightarrow> string" where
  "combine_values [] = []"
| "combine_values [v] = v"
| "combine_values (v # w # vs) = v @ '', '' @ combine_values (w # vs)"

text \<open>\<^verbatim>\<open>headers.get(name)\<close>: \<^verbatim>\<open>null\<close> when the list has no such name, else the combined value.\<close>

definition Headers_get :: "Headers \<Rightarrow> string \<Rightarrow> string option" where
  "Headers_get h n =
     (case header_values (header_list h) n of
        [] \<Rightarrow> None
      | v # vs \<Rightarrow> Some (combine_values (v # vs)))"

text \<open>
  Iterating a \<^verbatim>\<open>Headers\<close> object (\<^verbatim>\<open>Array.from(headers)\<close>, or passing it as the
  \<^verbatim>\<open>headers\<close> of a \<^verbatim>\<open>ResponseInit\<close>) yields the list "sorted and combined": the
  lower-cased names in ascending order, each once with its combined value, except
  \<^verbatim>\<open>set-cookie\<close>, whose values are listed one by one.
\<close>

definition header_names :: "header list \<Rightarrow> string list" where
  "header_names hl = remdups (sort (map (\<lambda>h. byte_lowercase (fst h)) hl))"

definition header_entry :: "header list \<Rightarrow> string \<Rightarrow> header list" where
  "header_entry hl n =
     (if n = ''set-cookie''
      then map (\<lambda>v. (n, v)) (header_values hl n)
      else [(n, combine_values (header_values hl n))])"

definition Headers_entries :: "Headers \<Rightarrow> header list" where
  "Headers_entries h =
     concat (map (header_entry (header_list h)) (header_names (header_list h)))"

text \<open>
  A value is normalised when it is appended to a header list: leading and trailing HTTP
  whitespace (tab, line feed, carriage return, space) is removed. Appending throws a
  \<^verbatim>\<open>TypeError\<close> unless the name is a non-empty token and the normalised value holds no
  NUL, line feed or carriage return.
\<close>

definition http_whitespace :: "char \<Rightarrow> bool" where
  "http_whitespace c = (c = CHR 0x09 \<or> c = CHR 0x0A \<or> c = CHR 0x0D \<or> c = CHR 0x20)"

definition normalize_value :: "string \<Rightarrow> string" where
  "normalize_value v = rev (dropWhile http_whitespace (rev (dropWhile http_whitespace v)))"

definition valid_value :: "string \<Rightarrow> bool" where
  "valid_value v = list_all (\<lambda>c. c \<noteq> CHR 0x00 \<and> c \<noteq> CHR 0x0A \<and> c \<noteq> CHR 0x0D) v"

definition token_char :: "char \<Rightarrow> bool" where
  "token_char c =
     ((CHR ''0'' \<le> c \<and> c \<le> CHR ''9'') \<or> (CHR ''a'' \<le> c \<and> c \<le> CHR ''z'') \<or>
      (CHR ''A'' \<le> c \<and> c \<le> CHR ''Z'') \<or> c \<in> set ''!#$%&*+-.^_|~'' \<or>
      c = CHR 0x27 \<or> c = CHR 0x60)"

definition valid_name :: "string \<Rightarrow> bool" where
  "valid_name n = (n \<noteq> [] \<and> list_all token_char n)"

text \<open>
  The pairs that come out of iterating \<^verbatim>\<open>Headers\<close> objects have valid names and values
  (see \<open>Headers_fill_entries\<close> below), so appending them cannot throw: they are normalised
  and stored. \<^verbatim>\<open>new Headers([...Array.from(a), ...Array.from(b)])\<close> is \<open>new_Headers\<close> of
  the two iterations; the new object is mutable.
\<close>

definition normalize_pairs :: "header list \<Rightarrow> header list" where
  "normalize_pairs hs = map (\<lambda>h. (fst h, normalize_value (snd h))) hs"

definition new_Headers :: "header list \<Rightarrow> Headers" where
  "new_Headers init = \<lparr>header_list = normalize_pairs init, immutable = False\<rparr>"

text \<open>A well-formed \<^verbatim>\<open>Headers\<close> object: what the platform's own operations produce.\<close>

definition Headers_valid :: "Headers \<Rightarrow> bool" where
  "Headers_valid h =
     list_all (\<lambda>x. valid_name (fst x) \<and> valid_value (snd x)) (header_list h)"

record Response =
  status :: int
  statusText :: string
  headers :: Headers
  body :: "string option"
  responseSent :: bool

text \<open>
  \<open>body\<close> is the content of the response's stream, \<open>None\<close> for a null body.
  \<open>responseSent\<close> is the property \<^verbatim>\<open>Symbol.for('astro.responseSent')\<close> that the shell
  sets on a response with \<^verbatim>\<open>Reflect.set\<close>.
\<close>

datatype exn =
    RangeError
  | TypeError
  | EndpointNotFoundError "Response option"
  | Error string
  | Nullish

text \<open>
  What can be thrown: the platform's \<^verbatim>\<open>RangeError\<close> and \<^verbatim>\<open>TypeError\<close>, the repository's
  \<^verbatim>\<open>EndpointNotFoundError\<close> with the response it carries, any other error or thrown value
  (with its message), and \<open>Nullish\<close>, a thrown \<^verbatim>\<open>null\<close> or \<^verbatim>\<open>undefined\<close> (the reason of
  \<^verbatim>\<open>Promise.reject()\<close>).
\<close>

text \<open>\<^verbatim>\<open>headers.delete(name)\<close> throws on an immutable header list.\<close>

definition Headers_delete :: "Headers \<Rightarrow> string \<Rightarrow> exn + Headers" where
  "Headers_delete h n =
     (if immutable h then Inl TypeError
      else Inr (h\<lparr>header_list :=
                   filter (\<lambda>x. byte_lowercase (fst x) \<noteq> byte_lowercase n) (header_list h)\<rparr>))"

text \<open>Appending one pair, and filling a header list from a sequence or record of pairs.\<close>

definition Headers_append :: "header list \<Rightarrow> header \<Rightarrow> exn + header list" where
  "Headers_append hl h =
     (if valid_name (fst h) \<and> valid_value (normalize_value (snd h))
      then Inr (hl @ [(fst h, normalize_value (snd h))])
      else Inl TypeError)"

fun Headers_fill :: "header list \<Rightarrow> header list \<Rightarrow> exn + header list" where
  "Headers_fill hl [] = Inr hl"
| "Headers_fill hl (h # hs) =
     (case Headers_append hl h of
        Inl e \<Rightarrow> Inl e
      | Inr hl' \<Rightarrow> Headers_fill hl' hs)"

text \<open>
  The \<^verbatim>\<open>headers\<close> of a \<^verbatim>\<open>ResponseInit\<close>: a \<^verbatim>\<open>Headers\<close> object, which the constructor
  copies by iterating it and appending every pair again, or a record of names and values.
\<close>

datatype HeadersInit = OfHeaders Headers | OfRecord "header list"

record ResponseInit =
  init_status :: int
  init_statusText :: string
  init_headers :: HeadersInit

text \<open>
  \<^verbatim>\<open>new Response(body, init)\<close>: a status outside 200..599 is a \<^verbatim>\<open>RangeError\<close>; an invalid
  header is a \<^verbatim>\<open>TypeError\<close>, and so is a body together with a null-body status.
\<close>

definition new_Response :: "string option \<Rightarrow> ResponseInit \<Rightarrow> exn + Response" where
  "new_Response b init =
     (if init_status init < 200 \<or> 599 < init_status init then Inl RangeError
      else (case (case init_headers init of
                    OfHeaders h \<Rightarrow> Inr (normalize_pairs (Headers_entries h))
                  | OfRecord kv \<Rightarrow> Headers_fill [] kv) of
              Inl e \<Rightarrow> Inl e
            | Inr hl \<Rightarrow>
                if b \<noteq> None \<and>
                   (init_status init = 204 \<or> init_status init = 205 \<or> init_status init = 304)
                then Inl TypeError
                else Inr \<lparr>status = init_status init,
                          statusText = init_statusText init,
                          headers = \<lparr>header_list = hl, immutable = False\<rparr>,
                          body = b,
                          responseSent = False\<rparr>))"

section \<open>Merging the error page's response with the original response\<close>

text \<open>The type \<^verbatim>\<open>404 | 500\<close> of \<^verbatim>\<open>RenderErrorOptions.status\<close> and of the override.\<close>

datatype error_status = S404 | S500

fun status_code :: "error_status \<Rightarrow> int" where
  "status_code S404 = 404"
| "status_code S500 = 500"

text \<open>
  \<^verbatim>\<open>App.#mergeResponses(newResponse, originalResponse?, override?)\<close>. The test
  \<^verbatim>\<open>override?.status ? ... : ...\<close> is a truthiness test of the number. The deletion of
  the original's \<^verbatim>\<open>Content-type\<close> is wrapped in \<^verbatim>\<open>try { } catch {}\<close>: when it throws,
  the original's headers are used as they are. The deletion also changes the original
  response object; that is not tracked, since the object is only ever read again by this
  function, which deletes the header again.
\<close>

definition mergeResponses ::
  "Response \<Rightarrow> Response option \<Rightarrow> error_status option \<Rightarrow> exn + Response" where
  "mergeResponses newResponse originalResponse override =
     (case originalResponse of
        None \<Rightarrow>
          (case override of
             Some ov \<Rightarrow>
               new_Response (body newResponse)
                 \<lparr>init_status = status_code ov,
                  init_statusText = statusText newResponse,
                  init_headers = OfHeaders (headers newResponse)\<rparr>
           | None \<Rightarrow> Inr newResponse)
      | Some orig \<Rightarrow>
          (let fallback = (if status orig = 200 then status newResponse else status orig);
               st = (case override of
                       None \<Rightarrow> fallback
                     | Some ov \<Rightarrow> if status_code ov \<noteq> 0 then status_code ov else fallback);
               origHeaders = (case Headers_delete (headers orig) ''Content-type'' of
                                Inl e \<Rightarrow> headers orig
                              | Inr h \<Rightarrow> h)
           in new_Response (body newResponse)
                \<lparr>init_status = st,
                 init_statusText = (if st = 200 then statusText newResponse else statusText orig),
                 init_headers =
                   OfHeaders (new_Headers (Headers_entries (headers newResponse) @
                                          Headers_entries origHeaders))\<rparr>))"

text \<open>The status the merge rule prescribes when an original response is present.\<close>

definition merged_status :: "Response \<Rightarrow> Response \<Rightarrow> error_status option \<Rightarrow> int" where
  "merged_status newResponse orig override =
     (case override of
        Some ov \<Rightarrow> status_code ov
      | None \<Rightarrow> if status orig = 200 then status newResponse else status orig)"

section \<open>Routes and redirects\<close>

text \<open>
  \<^verbatim>\<open>RouteData\<close> as far as the dispatch reads it. \<open>pattern\<close> is the route's regular
  expression, as the set of path names it accepts (\<^verbatim>\<open>pattern.test\<close>, \<^verbatim>\<open>pattern.exec\<close>).
  \<^verbatim>\<open>Params\<close> is a JavaScript object with string or undefined values; it is the list of
  its properties in the order \<^verbatim>\<open>Object.keys\<close> enumerates them.
\<close>

datatype RouteType = Page | Endpoint | Redirect | Fallback

datatype RedirectConfig =
    RedirectString string
  | RedirectObject (redirect_status: int) (destination: string)

type_synonym Params = "(string \<times> string option) list"

datatype RouteData = RouteData
  (route: string)
  (type: RouteType)
  (pattern: "string \<Rightarrow> bool")
  (prerender: bool)
  (component: string)
  (generate: "Params \<Rightarrow> string")
  (pathname: "string option")
  (redirect: "RedirectConfig option")
  (redirectRoute: "RouteData option")
  (fallbackRoutes: "RouteData list")

definition routeIsRedirect :: "RouteData option \<Rightarrow> bool" where
  "routeIsRedirect r = (case r of None \<Rightarrow> False | Some rd \<Rightarrow> type rd = Redirect)"

definition routeIsFallback :: "RouteData option \<Rightarrow> bool" where
  "routeIsFallback r = (case r of None \<Rightarrow> False | Some rd \<Rightarrow> type rd = Fallback)"

text \<open>
  \<^verbatim>\<open>String.prototype.replace\<close> with a string pattern replaces the first occurrence only,
  and expands the \<^verbatim>\<open>$\<close> patterns of the replacement text. \<open>split_first p s\<close> cuts \<open>s\<close>
  around the first occurrence of \<open>p\<close>.
\<close>

fun split_first :: "string \<Rightarrow> string \<Rightarrow> (string \<times> string) option" where
  "split_first p [] = (if p = [] then Some ([], []) else None)"
| "split_first p (c # cs) =
     (if take (length p) (c # cs) = p then Some ([], drop (length p) (c # cs))
      else (case split_first p cs of
              None \<Rightarrow> None
            | Some (pre, post) \<Rightarrow> Some (c # pre, post)))"

text \<open>
  The expansion of the replacement text for a string pattern (no capture groups):
  \<^verbatim>\<open>$$\<close> is a dollar sign, \<^verbatim>\<open>$&\<close> the matched text, \<^verbatim>\<open>$`\<close> the text before the match,
  \<^verbatim>\<open>$'\<close> the text after it; every other character stands for itself.
\<close>

fun GetSubstitution :: "string \<Rightarrow> string \<Rightarrow> string \<Rightarrow> string \<Rightarrow> string" where
  "GetSubstitution matched pre post [] = []"
| "GetSubstitution matched pre post [c] = [c]"
| "GetSubstitution matched pre post (c # d # r) =
     (if c = CHR ''$'' \<and> d = CHR ''$'' then CHR ''$'' # GetSubstitution matched pre post r
      else if c = CHR ''$'' \<and> d = CHR ''&'' then matched @ GetSubstitution matched pre post r
      else if c = CHR ''$'' \<and> d = CHR 0x60 then pre @ GetSubstitution matched pre post r
      else if c = CHR ''$'' \<and> d = CHR 0x27 then post @ GetSubstitution matched pre post r
      else c # GetSubstitution matched pre post (d # r))"

definition String_replace :: "string \<Rightarrow> string \<Rightarrow> string \<Rightarrow> string" where
  "String_replace s searchValue replaceValue =
     (case split_first searchValue s of
        None \<Rightarrow> s
      | Some (pre, post) \<Rightarrow> pre @ GetSubstitution searchValue pre post replaceValue @ post)"

text \<open>A parameter value used as replacement text: \<^verbatim>\<open>undefined\<close> is converted to a string.\<close>

definition ToString :: "string option \<Rightarrow> string" where
  "ToString v = (case v of None \<Rightarrow> ''undefined'' | Some s \<Rightarrow> s)"

text \<open>The loop \<^verbatim>\<open>for (const param of Object.keys(data))\<close> of \<^verbatim>\<open>redirectRouteGenerate\<close>.\<close>

fun substitute_params :: "string \<Rightarrow> Params \<Rightarrow> string" where
  "substitute_params target [] = target"
| "substitute_params target ((param, v) # rest) =
     (let paramValue = ToString v;
          target1 = String_replace target (''['' @ param @ '']'') paramValue;
          target2 = String_replace target1 (''[...'' @ param @ '']'') paramValue
      in substitute_params target2 rest)"

text \<open>
  \<^verbatim>\<open>redirectRouteGenerate(redirectRoute, data)\<close>. \<^verbatim>\<open>a || b\<close> takes \<open>b\<close> when \<open>a\<close> is
  the empty string or undefined.
\<close>

definition redirectRouteGenerate :: "RouteData \<Rightarrow> Params \<Rightarrow> string" where
  "redirectRouteGenerate rr data =
     (case redirectRoute rr of
        Some routeData \<Rightarrow>
          (if generate routeData data \<noteq> [] then generate routeData data
           else (case pathname routeData of
                   Some p \<Rightarrow> if p \<noteq> [] then p else ''/''
                 | None \<Rightarrow> ''/''))
      | None \<Rightarrow>
          (case redirect rr of
             Some (RedirectString r) \<Rightarrow> substitute_params r data
           | None \<Rightarrow> ''/''
           | Some (RedirectObject st dest) \<Rightarrow> dest))"

text \<open>
  \<^verbatim>\<open>redirectRouteStatus(redirectRoute, method = 'GET')\<close>. The status object it reads is
  the \<^verbatim>\<open>redirect\<close> of \<^verbatim>\<open>redirectRoute.redirectRoute\<close>.
\<close>

definition redirectRouteStatus :: "RouteData \<Rightarrow> string \<Rightarrow> int" where
  "redirectRouteStatus rr method =
     (case redirectRoute rr of
        Some routeData \<Rightarrow>
          (case redirect routeData of
             Some (RedirectObject st dest) \<Rightarrow> st
           | _ \<Rightarrow> if method \<noteq> ''GET'' then 308 else 301)
      | None \<Rightarrow> if method \<noteq> ''GET'' then 308 else 301)"

section \<open>Requests, render contexts and render units\<close>

record Request =
  url :: string
  request_method :: string
  locals :: "(string \<times> string) list option"

text \<open>
  \<open>request_method\<close> is the request's \<^verbatim>\<open>method\<close>;
  \<open>locals\<close> is the slot \<^verbatim>\<open>Symbol.for('astro.locals')\<close> of the request object.
\<close>

record RenderContext =
  ctx_request :: Request
  ctx_route :: RouteData
  ctx_params :: Params
  ctx_pathname :: string
  ctx_status :: int

text \<open>
  A component instance is the module a page file compiles to. Its default export, handed
  to the markup renderer (\<^verbatim>\<open>runtimeRenderPage\<close>, an external collaborator), yields a
  response or throws: \<open>default_export\<close> is that outcome as a function of the render context.
\<close>

type_synonym Component = "RenderContext \<Rightarrow> exn + Response"

record ComponentInstance =
  default_export :: "Component option"

text \<open>
  \<^verbatim>\<open>renderPage({ mod, renderContext, env, cookies })\<close> of \<^verbatim>\<open>core/render/core.ts\<close>;
  \<open>modl\<close> is its \<^verbatim>\<open>mod\<close>.
\<close>

definition renderPage :: "ComponentInstance option \<Rightarrow> RenderContext \<Rightarrow> exn + Response" where
  "renderPage modl renderContext =
     (if routeIsRedirect (Some (ctx_route renderContext)) then
        new_Response None
          \<lparr>init_status =
             redirectRouteStatus (ctx_route renderContext) (request_method (ctx_request renderContext)),
           init_statusText = [],
           init_headers =
             OfRecord
               [(''location'',
                 redirectRouteGenerate (ctx_route renderContext) (ctx_params renderContext))]\<rparr>
      else if routeIsFallback (Some (ctx_route renderContext)) then
        new_Response None \<lparr>init_status = 404, init_statusText = [], init_headers = OfRecord []\<rparr>
      else (case modl of
              None \<Rightarrow> Inl (Error ''CantRenderPage'')
            | Some m \<Rightarrow>
                (case default_export m of
                   None \<Rightarrow> Inl (Error ''Expected an exported Astro component'')
                 | Some Component \<Rightarrow> Component renderContext)))"

section \<open>The pipeline\<close>

text \<open>
  A middleware handler receives the request's context and the continuation \<^verbatim>\<open>next\<close>.
  Rendering is deterministic in the model, so the continuation is given by its outcome. A
  pre-render hook may annotate the context or throw. The endpoint-result handler receives
  the request and the endpoint's result.
\<close>

type_synonym MiddlewareHandler = "RenderContext \<Rightarrow> (exn + Response) \<Rightarrow> exn + Response"

type_synonym PipelineHookFunction =
  "RenderContext \<Rightarrow> ComponentInstance option \<Rightarrow> exn + RenderContext"

type_synonym EndpointResultHandler = "Request \<Rightarrow> Response \<Rightarrow> exn + Response"

record Pipeline =
  p_onRequest :: "MiddlewareHandler option"
  p_hooks_before :: "PipelineHookFunction list"
  p_endpointHandler :: "EndpointResultHandler option"

datatype TrailingSlash = Always | Never | Ignore

record SinglePageBuiltModule =
  page :: "exn + ComponentInstance"
  onRequest :: "MiddlewareHandler option"

text \<open>
  The functions and constants of the repository that the dispatch calls and that are not
  among the sources, and the platform's URL parser and \<^verbatim>\<open>fetch\<close>, are parameters of the
  model. \<open>createRenderContext\<close> is the builder of \<^verbatim>\<open>core/render/context.ts\<close>; its last
  argument is the route's asset metadata, from which the shell computes the scripts and
  styles it hands over (none for an endpoint).
  \<open>URL_pathname u\<close> is \<^verbatim>\<open>new URL(u).pathname\<close>, \<open>URL_resolve r u\<close> is
  \<^verbatim>\<open>new URL(r, u).toString()\<close>.
\<close>

text \<open>\<^verbatim>\<open>RouteInfo\<close>: the scripts and styles of a route of the manifest.\<close>

record RouteInfo =
  info_scripts :: "string list"
  info_styles :: "string list"

record Collaborators =
  matchRoute :: "string \<Rightarrow> RouteData list \<Rightarrow> RouteData option"
  createRenderContext ::
    "Request \<Rightarrow> string \<Rightarrow> RouteData \<Rightarrow> int \<Rightarrow> ComponentInstance \<Rightarrow> RouteInfo option
       \<Rightarrow> exn + RenderContext"
  callMiddleware :: "MiddlewareHandler \<Rightarrow> RenderContext \<Rightarrow> (exn + Response) \<Rightarrow> exn + Response"
  callEndpoint ::
    "ComponentInstance option \<Rightarrow> RenderContext \<Rightarrow> MiddlewareHandler option \<Rightarrow> exn + Response"
  sequence :: "MiddlewareHandler \<Rightarrow> MiddlewareHandler \<Rightarrow> MiddlewareHandler"
  createI18nMiddleware ::
    "string list option \<Rightarrow> string \<Rightarrow> TrailingSlash \<Rightarrow> MiddlewareHandler option"
  i18nPipelineHook :: PipelineHookFunction
  RedirectSinglePageBuiltModule :: SinglePageBuiltModule
  fetch :: "string \<Rightarrow> exn + Response"
  URL_pathname :: "string \<Rightarrow> string"
  URL_resolve :: "string \<Rightarrow> string \<Rightarrow> string"
  collapseDuplicateSlashes :: "string \<Rightarrow> string"

text \<open>The loop over \<^verbatim>\<open>this.#hooks.before\<close>.\<close>

fun run_hooks ::
  "PipelineHookFunction list \<Rightarrow> RenderContext \<Rightarrow> ComponentInstance option \<Rightarrow> exn + RenderContext"
where
  "run_hooks [] renderContext componentInstance = Inr renderContext"
| "run_hooks (hook # hooks) renderContext componentInstance =
     (case hook renderContext componentInstance of
        Inl e \<Rightarrow> Inl e
      | Inr renderContext' \<Rightarrow> run_hooks hooks renderContext' componentInstance)"

text \<open>
  \<^verbatim>\<open>Pipeline.#tryRenderRoute\<close>. The \<^verbatim>\<open>default\<close> branch of its \<^verbatim>\<open>switch\<close> is outside the
  four route types.
\<close>

definition tryRenderRoute ::
  "Collaborators \<Rightarrow> RenderContext \<Rightarrow> ComponentInstance option \<Rightarrow> MiddlewareHandler option
     \<Rightarrow> exn + Response" where
  "tryRenderRoute ext renderContext modl onReq =
     (case type (ctx_route renderContext) of
        Endpoint \<Rightarrow> callEndpoint ext modl renderContext onReq
      | _ \<Rightarrow>
          (case onReq of
             Some h \<Rightarrow> callMiddleware ext h renderContext (renderPage modl renderContext)
           | None \<Rightarrow> renderPage modl renderContext))"

text \<open>\<^verbatim>\<open>Pipeline.renderRoute(renderContext, componentInstance)\<close>.\<close>

definition renderRoute ::
  "Collaborators \<Rightarrow> Pipeline \<Rightarrow> RenderContext \<Rightarrow> ComponentInstance option \<Rightarrow> exn + Response"
where
  "renderRoute ext pl renderContext componentInstance =
     (case run_hooks (p_hooks_before pl) renderContext componentInstance of
        Inl e \<Rightarrow> Inl e
      | Inr renderContext' \<Rightarrow>
          (case tryRenderRoute ext renderContext' componentInstance (p_onRequest pl) of
             Inl e \<Rightarrow> Inl e
           | Inr result \<Rightarrow>
               if type (ctx_route renderContext') = Endpoint then
                 (case p_endpointHandler pl of
                    None \<Rightarrow>
                      Inl (Error ''You created a pipeline that does not know how to handle the result coming from an endpoint.'')
                  | Some handler \<Rightarrow> handler (ctx_request renderContext') result)
               else Inr result))"

definition setMiddlewareFunction :: "Pipeline \<Rightarrow> MiddlewareHandler \<Rightarrow> Pipeline" where
  "setMiddlewareFunction pl h = pl\<lparr>p_onRequest := Some h\<rparr>"

definition unsetMiddlewareFunction :: "Pipeline \<Rightarrow> Pipeline" where
  "unsetMiddlewareFunction pl = pl\<lparr>p_onRequest := None\<rparr>"

definition onBeforeRenderRoute :: "Pipeline \<Rightarrow> PipelineHookFunction \<Rightarrow> Pipeline" where
  "onBeforeRenderRoute pl fn = pl\<lparr>p_hooks_before := p_hooks_before pl @ [fn]\<rparr>"

section \<open>The production dispatch shell\<close>

record SSRManifest =
  base :: string
  trailingSlash :: TrailingSlash
  assets :: "string set"
  i18n :: "string list option"
  pageMap :: "(string \<Rightarrow> (exn + SinglePageBuiltModule) option) option"
  pageModule :: "SinglePageBuiltModule option"

text \<open>
  \<open>pageMap\<close> maps a component to the outcome of importing it. \<open>routeDataToRouteInfo\<close> is
  the map the constructor builds from the manifest's routes; \<^verbatim>\<open>setManifestData\<close> replaces
  \<open>manifestData\<close> and leaves it as it is. \<open>logger\<close> holds what has been written to the log:
  a warning, or for a caught \<open>err\<close> the text \<^verbatim>\<open>err.stack || err.message || String(err)\<close>,
  recorded as \<open>ErrorText err\<close>. \<open>invocations\<close> is the history of the calls of
  \<^verbatim>\<open>this.#pipeline.renderRoute\<close> this shell has made: the route rendered and whether a
  middleware function was set on the pipeline at that moment.
\<close>

datatype log_entry = Warn string | ErrorText exn

record App =
  manifest :: SSRManifest
  manifestData :: "RouteData list"
  routeDataToRouteInfo :: "RouteData \<Rightarrow> RouteInfo option"
  pipeline :: Pipeline
  logger :: "log_entry list"
  renderOptionsDeprecationWarningShown :: bool
  invocations :: "(string \<times> bool) list"

definition startsWith :: "string \<Rightarrow> string \<Rightarrow> bool" where
  "startsWith s p = (take (length p) s = p)"

definition endsWith :: "string \<Rightarrow> string \<Rightarrow> bool" where
  "endsWith s p = (length p \<le> length s \<and> drop (length s - length p) s = p)"

text \<open>
  Modelled from the spec: \<^verbatim>\<open>removeTrailingForwardSlash\<close> and \<^verbatim>\<open>prependForwardSlash\<close> of
  \<^verbatim>\<open>core/path.ts\<close> are not among the sources. The first drops one trailing slash, the
  second puts a slash in front of a path that has none.
\<close>

definition removeTrailingForwardSlash :: "string \<Rightarrow> string" where
  "removeTrailingForwardSlash path = (if endsWith path ''/'' then butlast path else path)"

definition prependForwardSlash :: "string \<Rightarrow> string" where
  "prependForwardSlash path =
     (case path of c # cs \<Rightarrow> if c = CHR ''/'' then path else ''/'' @ path | [] \<Rightarrow> ''/'' @ path)"

definition baseWithoutTrailingSlash :: "App \<Rightarrow> string" where
  "baseWithoutTrailingSlash app = removeTrailingForwardSlash (base (manifest app))"

definition removeBase :: "App \<Rightarrow> string \<Rightarrow> string" where
  "removeBase app p =
     (if startsWith p (base (manifest app))
      then drop (length (baseWithoutTrailingSlash app) + 1) p
      else p)"

definition getPathnameFromRequest :: "Collaborators \<Rightarrow> App \<Rightarrow> Request \<Rightarrow> string" where
  "getPathnameFromRequest ext app request =
     prependForwardSlash (removeBase app (URL_pathname ext (url request)))"

text \<open>\<^verbatim>\<open>App.match(request)\<close>.\<close>

definition match :: "Collaborators \<Rightarrow> App \<Rightarrow> Request \<Rightarrow> RouteData option" where
  "match ext app request =
     (if URL_pathname ext (url request) \<in> assets (manifest app) then None
      else (case matchRoute ext
                   (prependForwardSlash (removeBase app (URL_pathname ext (url request))))
                   (manifestData app) of
              None \<Rightarrow> None
            | Some routeData \<Rightarrow> if prerender routeData then None else Some routeData))"

text \<open>\<^verbatim>\<open>App.#getDefaultStatusCode(routeData, pathname)\<close>.\<close>

definition getDefaultStatusCode :: "RouteData \<Rightarrow> string \<Rightarrow> int" where
  "getDefaultStatusCode routeData p =
     (if \<not> pattern routeData p \<and> list_ex (\<lambda>fallbackRoute. pattern fallbackRoute p) (fallbackRoutes routeData)
      then 302
      else if endsWith (removeTrailingForwardSlash (route routeData)) ''/404'' then 404
      else if endsWith (removeTrailingForwardSlash (route routeData)) ''/500'' then 500
      else 200)"

text \<open>\<^verbatim>\<open>App.#getModuleForRoute(route)\<close>.\<close>

definition getModuleForRoute ::
  "Collaborators \<Rightarrow> App \<Rightarrow> RouteData \<Rightarrow> exn + SinglePageBuiltModule" where
  "getModuleForRoute ext app r =
     (if type r = Redirect then Inr (RedirectSinglePageBuiltModule ext)
      else (case pageMap (manifest app) of
              Some pm \<Rightarrow>
                (case pm (component r) of
                   None \<Rightarrow>
                     Inl (Error (''Unexpectedly unable to find a component instance for route '' @ route r))
                 | Some importComponentInstance \<Rightarrow> importComponentInstance)
            | None \<Rightarrow>
                (case pageModule (manifest app) of
                   Some importComponentInstance \<Rightarrow> Inr importComponentInstance
                 | None \<Rightarrow> Inl (Error ''Astro couldn't find the correct page to render''))))"

text \<open>
  \<^verbatim>\<open>App.#createRenderContext(url, request, routeData, page, status)\<close>. For a route that
  is no endpoint the route's asset metadata is looked up first, and reading the styles of
  a route the map does not hold throws a \<^verbatim>\<open>TypeError\<close>.
\<close>

definition App_createRenderContext ::
  "Collaborators \<Rightarrow> App \<Rightarrow> Request \<Rightarrow> RouteData \<Rightarrow> SinglePageBuiltModule \<Rightarrow> int
     \<Rightarrow> exn + RenderContext" where
  "App_createRenderContext ext app request routeData pg st =
     (if type routeData = Endpoint then
        (case page pg of
           Inl e \<Rightarrow> Inl e
         | Inr modl \<Rightarrow>
             createRenderContext ext request
               (''/'' @ removeBase app (URL_pathname ext (url request))) routeData st modl None)
      else
        (case routeDataToRouteInfo app routeData of
           None \<Rightarrow> Inl TypeError
         | Some info \<Rightarrow>
             (case page pg of
                Inl e \<Rightarrow> Inl e
              | Inr modl \<Rightarrow>
                  createRenderContext ext request
                    (prependForwardSlash (removeBase app (URL_pathname ext (url request))))
                    routeData st modl (Some info))))"

text \<open>The status as it is spliced into a path, \<^verbatim>\<open>`/${status}`\<close>.\<close>

fun status_digits :: "error_status \<Rightarrow> string" where
  "status_digits S404 = ''404''"
| "status_digits S500 = ''500''"

text \<open>One call of \<^verbatim>\<open>this.#pipeline.renderRoute\<close>, entered in the history.\<close>

definition invoke_pipeline ::
  "Collaborators \<Rightarrow> App \<Rightarrow> RenderContext \<Rightarrow> ComponentInstance option \<Rightarrow> (exn + Response) \<times> App"
where
  "invoke_pipeline ext app renderContext componentInstance =
     (renderRoute ext (pipeline app) renderContext componentInstance,
      app\<lparr>invocations := invocations app @
             [(route (ctx_route renderContext), p_onRequest (pipeline app) \<noteq> None)]\<rparr>)"

text \<open>
  The end of \<^verbatim>\<open>App.#renderError\<close>: a response without body and with the requested
  status is merged with the original response and marked as sent.
\<close>

definition renderError_bodyless ::
  "App \<Rightarrow> error_status \<Rightarrow> Response option \<Rightarrow> (exn + Response) \<times> App" where
  "renderError_bodyless app st originalResponse =
     (case new_Response None
             \<lparr>init_status = status_code st, init_statusText = [], init_headers = OfRecord []\<rparr> of
        Inl e \<Rightarrow> (Inl e, app)
      | Inr bodyless \<Rightarrow>
          (case mergeResponses bodyless originalResponse None of
             Inl e \<Rightarrow> (Inl e, app)
           | Inr response \<Rightarrow> (Inr (response\<lparr>responseSent := True\<rparr>), app)))"

text \<open>
  The middleware set-up inside the \<^verbatim>\<open>try\<close> block of \<^verbatim>\<open>App.#renderError\<close>: the module's
  middleware is set unless it is to be skipped, and when it is to be skipped whatever
  middleware is set on the pipeline is cleared.
\<close>

definition renderError_middleware :: "App \<Rightarrow> SinglePageBuiltModule \<Rightarrow> bool \<Rightarrow> App" where
  "renderError_middleware app modl skipMiddleware =
     (let app1 = (case onRequest modl of
                    Some h \<Rightarrow>
                      if \<not> skipMiddleware
                      then app\<lparr>pipeline := setMiddlewareFunction (pipeline app) h\<rparr>
                      else app
                  | None \<Rightarrow> app)
      in if skipMiddleware
         then app1\<lparr>pipeline := unsetMiddlewareFunction (pipeline app1)\<rparr>
         else app1)"

text \<open>
  The body of the \<^verbatim>\<open>try\<close> block of \<^verbatim>\<open>App.#renderError\<close>, for the error route
  \<open>errorRouteData\<close> and its module \<open>modl\<close>: \<open>Inl\<close> is what the \<^verbatim>\<open>catch\<close> receives.
\<close>

definition renderError_try ::
  "Collaborators \<Rightarrow> App \<Rightarrow> Request \<Rightarrow> error_status \<Rightarrow> Response option \<Rightarrow> bool \<Rightarrow>
     RouteData \<Rightarrow> SinglePageBuiltModule \<Rightarrow> (exn + Response) \<times> App" where
  "renderError_try ext app request st originalResponse skipMiddleware errorRouteData modl =
     (case App_createRenderContext ext app request errorRouteData modl (status_code st) of
        Inl e \<Rightarrow> (Inl e, app)
      | Inr newRenderContext \<Rightarrow>
          (case page modl of
             Inl e \<Rightarrow> (Inl e, app)
           | Inr pg \<Rightarrow>
               (case invoke_pipeline ext (renderError_middleware app modl skipMiddleware)
                       newRenderContext (Some pg) of
                  (Inl e, app3) \<Rightarrow> (Inl e, app3)
                | (Inr response, app3) \<Rightarrow>
                    (mergeResponses response originalResponse None, app3))))"

text \<open>
  The path of the error route, \<^verbatim>\<open>`/${status}${trailingSlash === 'always' ? '/' : ''}`\<close>,
  and the address of the prerendered error document.
\<close>

definition errorRoutePath :: "App \<Rightarrow> error_status \<Rightarrow> string" where
  "errorRoutePath app st =
     ''/'' @ status_digits st @ (if trailingSlash (manifest app) = Always then ''/'' else [])"

definition statusURL :: "Collaborators \<Rightarrow> App \<Rightarrow> Request \<Rightarrow> error_status \<Rightarrow> RouteData \<Rightarrow> string"
where
  "statusURL ext app request st errorRouteData =
     URL_resolve ext
       (baseWithoutTrailingSlash app @ ''/'' @ status_digits st @
        (if endsWith (route errorRouteData) (''/'' @ status_digits st) then ''.html'' else []))
       (url request)"

text \<open>
  \<^verbatim>\<open>App.#renderError(request, { status, response, skipMiddleware })\<close>. The result is the
  response or the exception the promise settles with, and the shell's state afterwards.
\<close>

function renderError ::
  "Collaborators \<Rightarrow> App \<Rightarrow> Request \<Rightarrow> error_status \<Rightarrow> Response option \<Rightarrow> bool
     \<Rightarrow> (exn + Response) \<times> App" where
  "renderError ext app request st originalResponse skipMiddleware =
     (case matchRoute ext (errorRoutePath app st) (manifestData app) of
        None \<Rightarrow> renderError_bodyless app st originalResponse
      | Some errorRouteData \<Rightarrow>
          if prerender errorRouteData then
            (case fetch ext (statusURL ext app request st errorRouteData) of
               Inl e \<Rightarrow> (Inl e, app)
             | Inr response \<Rightarrow> (mergeResponses response originalResponse (Some st), app))
          else
            (case getModuleForRoute ext app errorRouteData of
               Inl e \<Rightarrow> (Inl e, app)
             | Inr modl \<Rightarrow>
                 (case renderError_try ext app request st originalResponse skipMiddleware
                         errorRouteData modl of
                    (Inr response, app') \<Rightarrow> (Inr response, app')
                  | (Inl e, app') \<Rightarrow>
                      if \<not> skipMiddleware \<and> onRequest modl \<noteq> None
                      then renderError ext app' request st originalResponse True
                      else renderError_bodyless app' st originalResponse)))"
  by pat_completeness auto
termination
  by (relation "measure (\<lambda>(ext, app, request, st, originalResponse, skipMiddleware).
                   if skipMiddleware then 0 else 1)") auto

declare renderError.simps [simp del]

text \<open>
  The two signatures of \<^verbatim>\<open>App.render\<close>: an options object with a \<^verbatim>\<open>routeData\<close> or a
  \<^verbatim>\<open>locals\<close> key, or the deprecated positional arguments. An object with neither key is
  taken by the code for a positional \<^verbatim>\<open>RouteData\<close>; it is no route, and it is outside
  this type.
\<close>

datatype RenderArgs =
    Options "RouteData option" "(string \<times> string) list option"
  | Positional "RouteData option" "(string \<times> string) list option"

definition logRenderOptionsDeprecationWarning :: "App \<Rightarrow> App" where
  "logRenderOptionsDeprecationWarning app =
     (if renderOptionsDeprecationWarningShown app then app
      else app\<lparr>logger := logger app @ [Warn ''deprecated''],
               renderOptionsDeprecationWarningShown := True\<rparr>)"

text \<open>
  The middleware set-up at the start of the \<^verbatim>\<open>try\<close> block of \<^verbatim>\<open>App.render\<close>, for the
  module \<open>modl\<close> of the route.
\<close>

definition configureMiddleware :: "Collaborators \<Rightarrow> App \<Rightarrow> SinglePageBuiltModule \<Rightarrow> App" where
  "configureMiddleware ext app modl =
     (case createI18nMiddleware ext (i18n (manifest app)) (base (manifest app))
             (trailingSlash (manifest app)) of
        Some i18nMiddleware \<Rightarrow>
          app\<lparr>pipeline :=
                onBeforeRenderRoute
                  (setMiddlewareFunction (pipeline app)
                     (case onRequest modl of
                        Some h \<Rightarrow> sequence ext i18nMiddleware h
                      | None \<Rightarrow> i18nMiddleware))
                  (i18nPipelineHook ext)\<rparr>
      | None \<Rightarrow>
          (case onRequest modl of
             Some h \<Rightarrow> app\<lparr>pipeline := setMiddlewareFunction (pipeline app) h\<rparr>
           | None \<Rightarrow> app))"

text \<open>
  What \<^verbatim>\<open>App.render\<close> does with the outcome of the pipeline's render of the route
  \<open>routeData\<close>: the \<^verbatim>\<open>catch\<close> block, and the status check that follows the \<^verbatim>\<open>try\<close>.
  For a caught \<^verbatim>\<open>null\<close> or \<^verbatim>\<open>undefined\<close> the argument \<^verbatim>\<open>err.stack\<close> of the log call
  throws a \<^verbatim>\<open>TypeError\<close>, which leaves \<^verbatim>\<open>render\<close>.
\<close>

definition render_outcome ::
  "Collaborators \<Rightarrow> App \<Rightarrow> Request \<Rightarrow> RouteData \<Rightarrow> exn + Response \<Rightarrow> (exn + Response) \<times> App"
where
  "render_outcome ext app request routeData outcome =
     (case outcome of
        Inl err \<Rightarrow>
          (case err of
             EndpointNotFoundError originalResponse \<Rightarrow>
               renderError ext app request S404 originalResponse False
           | Nullish \<Rightarrow> (Inl TypeError, app)
           | _ \<Rightarrow>
               renderError ext (app\<lparr>logger := logger app @ [ErrorText err]\<rparr>) request S500 None False)
      | Inr response \<Rightarrow>
          if type routeData = Page \<or> type routeData = Redirect then
            (if status response = 404 then renderError ext app request S404 (Some response) False
             else if status response = 500 then renderError ext app request S500 (Some response) False
             else (Inr (response\<lparr>responseSent := True\<rparr>), app))
          else (Inr response, app))"

text \<open>
  The first lines of \<^verbatim>\<open>App.render(request, routeDataOrOptions, maybeLocals)\<close>: the
  arguments are read, the deprecated signature is warned about once, a request whose URL
  has duplicate slashes is replaced by one with the cleaned URL, the route is looked up
  when the caller gave none, and the locals are stored on the request.
\<close>

definition args_routeData :: "RenderArgs \<Rightarrow> RouteData option" where
  "args_routeData args = (case args of Options rd l \<Rightarrow> rd | Positional rd l \<Rightarrow> rd)"

definition args_locals :: "RenderArgs \<Rightarrow> (string \<times> string) list option" where
  "args_locals args = (case args of Options rd l \<Rightarrow> l | Positional rd l \<Rightarrow> l)"

definition app_after_args :: "App \<Rightarrow> RenderArgs \<Rightarrow> App" where
  "app_after_args app args =
     (case args of
        Options rd l \<Rightarrow> app
      | Positional rd l \<Rightarrow>
          if rd \<noteq> None \<or> l \<noteq> None then logRenderOptionsDeprecationWarning app else app)"

definition request_collapsed :: "Collaborators \<Rightarrow> Request \<Rightarrow> Request" where
  "request_collapsed ext request =
     (if url request \<noteq> collapseDuplicateSlashes ext (url request)
      then request\<lparr>url := collapseDuplicateSlashes ext (url request)\<rparr>
      else request)"

definition resolved_route :: "Collaborators \<Rightarrow> App \<Rightarrow> Request \<Rightarrow> RenderArgs \<Rightarrow> RouteData option"
where
  "resolved_route ext app request args =
     (case args_routeData args of
        None \<Rightarrow> match ext (app_after_args app args) (request_collapsed ext request)
      | Some rd \<Rightarrow> Some rd)"

definition request_with_locals :: "Collaborators \<Rightarrow> Request \<Rightarrow> RenderArgs \<Rightarrow> Request" where
  "request_with_locals ext request args =
     (request_collapsed ext request)
       \<lparr>locals := Some (case args_locals args of None \<Rightarrow> [] | Some l \<Rightarrow> l)\<rparr>"

text \<open>
  What \<^verbatim>\<open>App.render\<close> does between the route lookup and its \<^verbatim>\<open>try\<close> block: it computes
  the default status, loads the route's module and its page, and builds the render
  context. An exception here is not caught.
\<close>

definition render_setup ::
  "Collaborators \<Rightarrow> App \<Rightarrow> Request \<Rightarrow> RouteData
     \<Rightarrow> exn + (SinglePageBuiltModule \<times> ComponentInstance \<times> RenderContext)" where
  "render_setup ext app request routeData =
     (let defaultStatus = getDefaultStatusCode routeData (getPathnameFromRequest ext app request)
      in case getModuleForRoute ext app routeData of
           Inl e \<Rightarrow> Inl e
         | Inr modl \<Rightarrow>
             (case page modl of
                Inl e \<Rightarrow> Inl e
              | Inr pageModule' \<Rightarrow>
                  (case App_createRenderContext ext app request routeData modl defaultStatus of
                     Inl e \<Rightarrow> Inl e
                   | Inr renderContext \<Rightarrow> Inr (modl, pageModule', renderContext))))"

text \<open>\<^verbatim>\<open>App.render(request, routeDataOrOptions, maybeLocals)\<close>.\<close>

definition render ::
  "Collaborators \<Rightarrow> App \<Rightarrow> Request \<Rightarrow> RenderArgs \<Rightarrow> (exn + Response) \<times> App" where
  "render ext app request0 args =
     (case resolved_route ext app request0 args of
        None \<Rightarrow>
          renderError ext (app_after_args app args) (request_collapsed ext request0) S404 None False
      | Some routeData \<Rightarrow>
          (case render_setup ext (app_after_args app args)
                  (request_with_locals ext request0 args) routeData of
             Inl e \<Rightarrow> (Inl e, app_after_args app args)
           | Inr (modl, pageModule', renderContext) \<Rightarrow>
               (case invoke_pipeline ext (configureMiddleware ext (app_after_args app args) modl)
                       renderContext (Some pageModule') of
                  (outcome, app1) \<Rightarrow>
                    render_outcome ext app1 (request_with_locals ext request0 args) routeData
                      outcome)))"

section \<open>What the merged headers are compared with\<close>

text \<open>
  The value \<^verbatim>\<open>get\<close> returns for a name that two header lists are appended for: the
  values of both, the first list's first.
\<close>

definition both_values :: "string option \<Rightarrow> string option \<Rightarrow> string option" where
  "both_values a b =
     (case a of
        None \<Rightarrow> b
      | Some x \<Rightarrow> (case b of None \<Rightarrow> Some x | Some y \<Rightarrow> Some (x @ '', '' @ y)))"



text \<open>The response \<^verbatim>\<open>new Response(null, { status })\<close> once it is marked as sent.\<close>

definition bodyless :: "error_status \<Rightarrow> Response" where
  "bodyless st = \<lparr>status = status_code st, statusText = [], headers = new_Headers [], body = None,
                  responseSent = True\<rparr>"

section \<open>A sample site\<close>

text \<open>
  A page answers 404 with a header of its own; the error page answers 200 with its
  content type and the same header name.
\<close>

definition example_original :: Response where
  "example_original =
     \<lparr>status = 404, statusText = ''Not Found'',
      headers = \<lparr>header_list = [(''X-Custom'', ''1''), (''Content-Type'', ''text/plain'')],
                 immutable = False\<rparr>,
      body = Some ''missing'', responseSent = False\<rparr>"

definition example_error_page :: Response where
  "example_error_page =
     \<lparr>status = 200, statusText = ''OK'',
      headers = \<lparr>header_list = [(''x-custom'', ''0''), (''content-type'', ''text/html'')],
                 immutable = False\<rparr>,
      body = Some ''<h1>Not Found</h1>'', responseSent = False\<rparr>"

definition example_merged :: Response where
  "example_merged =
     \<lparr>status = 404, statusText = ''Not Found'',
      headers = \<lparr>header_list = [(''content-type'', ''text/html''), (''x-custom'', ''0, 1'')],
                 immutable = False\<rparr>,
      body = Some ''<h1>Not Found</h1>'', responseSent = False\<rparr>"

text \<open>Routes, requests and render contexts of the sample site.\<close>

definition example_page_route :: "string \<Rightarrow> string \<Rightarrow> RouteData list \<Rightarrow> RouteData" where
  "example_page_route r c fbs =
     RouteData r Page (\<lambda>p. p = r) False c (\<lambda>data. r) (Some r) None None fbs"

definition example_redirect_route :: RouteData where
  "example_redirect_route =
     RouteData ''/old'' Redirect (\<lambda>p. p = ''/old'') False ''/old'' (\<lambda>data. ''/old'') (Some ''/old'')
       (Some (RedirectString ''/new'')) None []"

definition example_slug_route :: "string \<Rightarrow> RouteData" where
  "example_slug_route template =
     RouteData ''/blog/[slug]'' Redirect (\<lambda>p. take 6 p = ''/blog/'') False ''/blog/[slug]''
       (\<lambda>data. ''/blog'') None (Some (RedirectString template)) None []"

definition example_request :: "string \<Rightarrow> string \<Rightarrow> Request" where
  "example_request m u = \<lparr>url = u, request_method = m, locals = None\<rparr>"

definition example_context :: "string \<Rightarrow> RouteData \<Rightarrow> Params \<Rightarrow> RenderContext" where
  "example_context m r ps =
     \<lparr>ctx_request = example_request m (''http://example.com'' @ route r), ctx_route = r,
      ctx_params = ps, ctx_pathname = route r, ctx_status = 200\<rparr>"

text \<open>
  The site: a home page, a page that answers 404 itself, a page and a 500 page whose
  render throws an error, a page whose render rejects with \<^verbatim>\<open>undefined\<close>, the 404 page, a
  redirect, an endpoint and a fallback route. Every module carries the same middleware
  \<open>mw\<close>, if any.
\<close>

definition example_home :: Response where
  "example_home =
     \<lparr>status = 200, statusText = ''OK'',
      headers = \<lparr>header_list = [(''content-type'', ''text/html'')], immutable = False\<rparr>,
      body = Some ''<h1>Home</h1>'', responseSent = False\<rparr>"

definition example_fallback_route :: RouteData where
  "example_fallback_route =
     RouteData ''/it/start'' Fallback (\<lambda>p. p = ''/it/start'') False ''start'' (\<lambda>data. ''/it/start'')
       (Some ''/it/start'') None None []"

definition example_endpoint_route :: RouteData where
  "example_endpoint_route =
     RouteData ''/api'' Endpoint (\<lambda>p. p = ''/api'') False ''api'' (\<lambda>data. ''/api'')
       (Some ''/api'') None None []"

definition example_routes :: "RouteData list" where
  "example_routes =
     [example_page_route ''/'' ''index'' [],
      example_page_route ''/gone'' ''gone'' [],
      example_page_route ''/boom'' ''boom'' [],
      example_page_route ''/void'' ''void'' [],
      example_page_route ''/404'' ''404'' [],
      example_page_route ''/500'' ''500'' [],
      example_redirect_route,
      example_endpoint_route,
      example_fallback_route]"

definition example_component :: "string \<Rightarrow> Component" where
  "example_component c renderContext =
     (if c = ''404'' then Inr example_error_page
      else if c = ''gone'' then Inr example_original
      else if c = ''boom'' \<or> c = ''500'' then Inl (Error ''boom'')
      else if c = ''void'' then Inl Nullish
      else Inr example_home)"

definition example_module :: "MiddlewareHandler option \<Rightarrow> string \<Rightarrow> SinglePageBuiltModule" where
  "example_module mw c =
     \<lparr>page = Inr \<lparr>default_export = Some (example_component c)\<rparr>, onRequest = mw\<rparr>"

definition example_broken_middleware :: MiddlewareHandler where
  "example_broken_middleware renderContext next = Inl (Error ''middleware failed'')"

definition example_handler :: EndpointResultHandler where
  "example_handler request result = Inr (result\<lparr>statusText := ''handled''\<rparr>)"

definition example_site :: Collaborators where
  "example_site =
     \<lparr>matchRoute = (\<lambda>p routes. find (\<lambda>r. pattern r p) routes),
      createRenderContext = (\<lambda>request p r st modl info.
        Inr \<lparr>ctx_request = request, ctx_route = r, ctx_params = [], ctx_pathname = p,
             ctx_status = st\<rparr>),
      callMiddleware = (\<lambda>h renderContext next. h renderContext next),
      callEndpoint = (\<lambda>modl renderContext onReq. Inr example_home),
      sequence = (\<lambda>h1 h2 renderContext next. h1 renderContext (h2 renderContext next)),
      createI18nMiddleware = (\<lambda>locales b ts. None),
      i18nPipelineHook = (\<lambda>renderContext modl. Inr renderContext),
      RedirectSinglePageBuiltModule =
        \<lparr>page = Inr \<lparr>default_export = None\<rparr>, onRequest = Some (\<lambda>renderContext next. next)\<rparr>,
      fetch = (\<lambda>u. Inl (Error ''fetch failed'')),
      URL_pathname = drop 18,
      URL_resolve = (\<lambda>r u. take 18 u @ r),
      collapseDuplicateSlashes = (\<lambda>u. u)\<rparr>"

text \<open>
  The shell's state: \<open>slot\<close> is the middleware set on the pipeline, \<open>msgs\<close> the log,
  \<open>invs\<close> the history of the pipeline's calls.
\<close>

definition example_app_state ::
  "MiddlewareHandler option \<Rightarrow> MiddlewareHandler option \<Rightarrow> log_entry list
     \<Rightarrow> (string \<times> bool) list \<Rightarrow> App" where
  "example_app_state mw slot msgs invs =
     \<lparr>manifest = \<lparr>base = ''/'', trailingSlash = Ignore, assets = {}, i18n = None,
                  pageMap = Some (\<lambda>c. Some (Inr (example_module mw c))), pageModule = None\<rparr>,
      manifestData = example_routes,
      routeDataToRouteInfo =
        (\<lambda>r. if r \<in> set example_routes then Some \<lparr>info_scripts = [], info_styles = []\<rparr>
             else None),
      pipeline = \<lparr>p_onRequest = slot, p_hooks_before = [],
                  p_endpointHandler = Some example_handler\<rparr>,
      logger = msgs,
      renderOptionsDeprecationWarningShown = False,
      invocations = invs\<rparr>"

definition example_app :: "MiddlewareHandler option \<Rightarrow> App" where
  "example_app mw = example_app_state mw None [] []"

definition example_bare_404 :: Response where
  "example_bare_404 =
     \<lparr>status = 404, statusText = [], headers = new_Headers [], body = None, responseSent = False\<rparr>"

text \<open>
  The request of the sample site once the shell has stored the (empty) locals on it, the
  render context the sample site builds for a page, and a site whose table has the home
  page only.
\<close>

definition example_request_seen :: "string \<Rightarrow> string \<Rightarrow> Request" where
  "example_request_seen m u = \<lparr>url = u, request_method = m, locals = Some []\<rparr>"

definition example_page_context :: "string \<Rightarrow> string \<Rightarrow> int \<Rightarrow> RenderContext" where
  "example_page_context r c st =
     \<lparr>ctx_request = example_request_seen ''GET'' (''http://example.com'' @ r),
      ctx_route = example_page_route r c [], ctx_params = [], ctx_pathname = r, ctx_status = st\<rparr>"

definition example_small_app :: App where
  "example_small_app = (example_app None)\<lparr>manifestData := [example_page_route ''/'' ''index'' []]\<rparr>"

section \<open>Properties of header lists\<close>

lemma byte_lowercase_char_idem: "byte_lowercase_char (byte_lowercase_char c) = byte_lowercase_char c"
  unfolding byte_lowercase_char_def by (simp split: if_splits)

lemma byte_lowercase_idem: "byte_lowercase (byte_lowercase s) = byte_lowercase s"
  by (simp add: byte_lowercase_def byte_lowercase_char_idem)

lemma header_values_append: "header_values (xs @ ys) n = header_values xs n @ header_values ys n"
  by (simp add: header_values_def)

lemma header_values_lower: "header_values hl (byte_lowercase n) = header_values hl n"
  by (simp add: header_values_def byte_lowercase_idem)

lemma header_values_entry:
  "byte_lowercase m = m \<Longrightarrow>
   header_values (header_entry hl m) n =
     (if byte_lowercase n = m
      then (if m = ''set-cookie'' then header_values hl m else [combine_values (header_values hl m)])
      else [])"
  by (auto simp: header_entry_def header_values_def filter_empty_conv comp_def)

lemma header_values_concat_entries:
  "distinct ns \<Longrightarrow> \<forall>m\<in>set ns. byte_lowercase m = m \<Longrightarrow>
   header_values (concat (map (header_entry hl) ns)) n =
     (if byte_lowercase n \<in> set ns
      then (if byte_lowercase n = ''set-cookie'' then header_values hl n
            else [combine_values (header_values hl n)])
      else [])"
proof (induction ns)
  case Nil
  then show ?case by (simp add: header_values_def)
next
  case (Cons a ns)
  then show ?case
    by (auto simp: header_values_append header_values_entry header_values_lower[symmetric, of hl n])
qed

lemma header_names_distinct: "distinct (header_names hl)"
  by (simp add: header_names_def)

lemma header_names_lower: "\<forall>m\<in>set (header_names hl). byte_lowercase m = m"
  by (auto simp: header_names_def byte_lowercase_idem)

lemma header_names_mem: "byte_lowercase n \<in> set (header_names hl) \<longleftrightarrow> header_values hl n \<noteq> []"
  by (force simp: header_names_def header_values_def filter_empty_conv)

lemma header_values_entries:
  "header_values (Headers_entries h) n =
     (if header_values (header_list h) n = [] then []
      else if byte_lowercase n = ''set-cookie'' then header_values (header_list h) n
      else [combine_values (header_values (header_list h) n)])"
  unfolding Headers_entries_def
  using header_values_concat_entries[OF header_names_distinct header_names_lower, of "header_list h" "header_list h" n]
  by (simp add: header_names_mem)

lemma combine_values_Cons:
  "combine_values (v # ys) = (if ys = [] then v else v @ '', '' @ combine_values ys)"
  by (cases ys) simp_all

lemma combine_values_append:
  "combine_values (xs @ ys) =
     (if xs = [] then combine_values ys
      else if ys = [] then combine_values xs
      else combine_values xs @ '', '' @ combine_values ys)"
proof (induction xs)
  case Nil
  then show ?case by simp
next
  case (Cons a xs)
  then show ?case by (simp add: combine_values_Cons)
qed

lemma Headers_get_alt:
  "Headers_get h n =
     (if header_values (header_list h) n = [] then None
      else Some (combine_values (header_values (header_list h) n)))"
  by (simp add: Headers_get_def split: list.splits)

lemma Headers_get_entries:
  "Headers_get \<lparr>header_list = Headers_entries h, immutable = g\<rparr> n = Headers_get h n"
  by (simp add: Headers_get_alt header_values_entries)

lemma Headers_get_append:
  "Headers_get \<lparr>header_list = xs @ ys, immutable = g\<rparr> n =
     both_values (Headers_get \<lparr>header_list = xs, immutable = g1\<rparr> n)
                 (Headers_get \<lparr>header_list = ys, immutable = g2\<rparr> n)"
  by (simp add: Headers_get_alt header_values_append both_values_def combine_values_append)

lemma Headers_get_merged:
  "Headers_get \<lparr>header_list = Headers_entries a @ Headers_entries b, immutable = g\<rparr> n =
     both_values (Headers_get a n) (Headers_get b n)"
  using Headers_get_append[of "Headers_entries a" "Headers_entries b" g n g g]
  by (simp add: Headers_get_entries)









text \<open>
  On well-formed \<^verbatim>\<open>Headers\<close> objects the platform's checked append accepts every pair an
  iteration yields, and what it builds is well-formed again: copying without the check is
  what the constructors do there.
\<close>

lemma Headers_fill_valid:
  "list_all (\<lambda>x. valid_name (fst x) \<and> valid_value (normalize_value (snd x))) hs \<Longrightarrow>
   Headers_fill hl hs = Inr (hl @ normalize_pairs hs)"
  by (induction hs arbitrary: hl) (auto simp: Headers_append_def normalize_pairs_def)

lemma set_normalize_value: "x \<in> set (normalize_value v) \<Longrightarrow> x \<in> set v"
proof -
  assume "x \<in> set (normalize_value v)"
  then have "x \<in> set (dropWhile http_whitespace (rev (dropWhile http_whitespace v)))"
    by (simp add: normalize_value_def)
  then have "x \<in> set (rev (dropWhile http_whitespace v))"
    by (rule set_dropWhileD)
  then have "x \<in> set (dropWhile http_whitespace v)"
    by simp
  then show "x \<in> set v"
    by (rule set_dropWhileD)
qed

lemma list_all_normalize_value: "list_all P v \<Longrightarrow> list_all P (normalize_value v)"
  unfolding list_all_iff using set_normalize_value by blast

lemma valid_value_normalize: "valid_value v \<Longrightarrow> valid_value (normalize_value v)"
  unfolding valid_value_def by (rule list_all_normalize_value)

lemma valid_value_combine: "list_all valid_value vs \<Longrightarrow> valid_value (combine_values vs)"
  by (induction vs rule: combine_values.induct) (auto simp: valid_value_def)

lemma byte_lowercase_char_range:
  "byte_lowercase_char c = c \<or> byte_lowercase_char c \<in> set ''abcdefghijklmnopqrstuvwxyz''"
proof (cases "map_of (zip ''ABCDEFGHIJKLMNOPQRSTUVWXYZ'' ''abcdefghijklmnopqrstuvwxyz'') c")
  case None
  then have "byte_lowercase_char c = c"
    by (simp only: byte_lowercase_char_def option.case)
  then show ?thesis by (rule disjI1)
next
  case (Some d)
  then have "d \<in> set ''abcdefghijklmnopqrstuvwxyz''"
    by (metis map_of_SomeD set_zip_rightD)
  moreover from Some have "byte_lowercase_char c = d"
    by (simp only: byte_lowercase_char_def option.case)
  ultimately show ?thesis by (simp only: disjI2)
qed

lemma lowercase_letter_range:
  "d \<in> set ''abcdefghijklmnopqrstuvwxyz'' \<Longrightarrow> CHR ''a'' \<le> d \<and> d \<le> CHR ''z''"
  by (auto simp: less_eq_char_def)

lemma token_char_lowercase:
  assumes "token_char c"
  shows "token_char (byte_lowercase_char c)"
proof (cases "byte_lowercase_char c = c")
  case True
  with assms show ?thesis by simp
next
  case False
  with byte_lowercase_char_range[of c]
  have "byte_lowercase_char c \<in> set ''abcdefghijklmnopqrstuvwxyz''" by blast
  then have "CHR ''a'' \<le> byte_lowercase_char c \<and> byte_lowercase_char c \<le> CHR ''z''"
    by (rule lowercase_letter_range)
  then show ?thesis unfolding token_char_def by blast
qed

lemma valid_name_lowercase: "valid_name n \<Longrightarrow> valid_name (byte_lowercase n)"
  by (auto simp: valid_name_def byte_lowercase_def list_all_iff token_char_lowercase)

lemma header_entry_valid:
  assumes "list_all (\<lambda>x. valid_name (fst x) \<and> valid_value (snd x)) hl" and "valid_name m"
  shows "list_all (\<lambda>x. valid_name (fst x) \<and> valid_value (snd x)) (header_entry hl m)"
proof -
  have "list_all valid_value (header_values hl m)"
    using assms(1) by (auto simp: header_values_def list_all_iff)
  then show ?thesis
    using assms(2) by (auto simp: header_entry_def list_all_iff valid_value_combine)
qed

lemma Headers_entries_valid:
  assumes "Headers_valid h"
  shows "list_all (\<lambda>x. valid_name (fst x) \<and> valid_value (snd x)) (Headers_entries h)"
proof -
  have "valid_name m" if "m \<in> set (header_names (header_list h))" for m
    using that assms
    by (auto simp: header_names_def Headers_valid_def list_all_iff valid_name_lowercase)
  then show ?thesis
    using assms header_entry_valid[of "header_list h"]
    by (auto simp: Headers_entries_def Headers_valid_def list_all_iff)
qed

lemma Headers_fill_entries:
  assumes "Headers_valid a" and "Headers_valid b"
  shows "Headers_fill [] (Headers_entries a) = Inr (normalize_pairs (Headers_entries a))"
    and "Headers_fill [] (Headers_entries a @ Headers_entries b) =
           Inr (header_list (new_Headers (Headers_entries a @ Headers_entries b)))"
    and "Headers_valid (new_Headers (Headers_entries a @ Headers_entries b))"
proof -
  have va: "list_all (\<lambda>x. valid_name (fst x) \<and> valid_value (normalize_value (snd x)))
              (Headers_entries a)"
    and vb: "list_all (\<lambda>x. valid_name (fst x) \<and> valid_value (normalize_value (snd x)))
              (Headers_entries b)"
    using Headers_entries_valid[OF assms(1)] Headers_entries_valid[OF assms(2)]
    by (auto simp: list_all_iff valid_value_normalize)
  show "Headers_fill [] (Headers_entries a) = Inr (normalize_pairs (Headers_entries a))"
    using Headers_fill_valid[OF va, of "[]"] by simp
  have vab: "list_all (\<lambda>x. valid_name (fst x) \<and> valid_value (normalize_value (snd x)))
              (Headers_entries a @ Headers_entries b)"
    using va vb by simp
  show "Headers_fill [] (Headers_entries a @ Headers_entries b) =
           Inr (header_list (new_Headers (Headers_entries a @ Headers_entries b)))"
    using Headers_fill_valid[OF vab, of "[]"] by (simp add: new_Headers_def)
  show "Headers_valid (new_Headers (Headers_entries a @ Headers_entries b))"
    using vab
    by (simp add: Headers_valid_def new_Headers_def normalize_pairs_def list.pred_map comp_def)
qed

lemmas header_eval = Headers_entries_def header_names_def header_entry_def header_values_def
  byte_lowercase_def byte_lowercase_char_def less_eq_char_def less_char_def Headers_delete_def
  new_Headers_def Headers_get_def normalize_pairs_def normalize_value_def http_whitespace_def

section \<open>Properties of the merge\<close>

lemma status_code_nonzero: "status_code ov \<noteq> 0"
  by (cases ov) simp_all

lemma mergeResponses_Some_eq:
  "mergeResponses n (Some orig) ov =
     new_Response (body n)
       \<lparr>init_status = merged_status n orig ov,
        init_statusText = (if merged_status n orig ov = 200 then statusText n else statusText orig),
        init_headers =
          OfHeaders (new_Headers (Headers_entries (headers n) @
            Headers_entries (case Headers_delete (headers orig) ''Content-type'' of
                               Inl e \<Rightarrow> headers orig | Inr h \<Rightarrow> h)))\<rparr>"
  by (cases ov) (simp_all add: mergeResponses_def merged_status_def Let_def status_code_nonzero)

lemma new_Response_status: "new_Response b init = Inr r \<Longrightarrow> status r = init_status init"
  by (auto simp: new_Response_def split: if_splits sum.splits)

lemma new_Response_returns:
  "200 \<le> init_status init \<Longrightarrow> init_status init \<le> 599 \<Longrightarrow>
   b = None \<or> init_status init \<notin> {204, 205, 304} \<Longrightarrow>
   \<exists>h. init_headers init = OfHeaders h \<Longrightarrow>
   \<exists>r. new_Response b init = Inr r"
  by (auto simp: new_Response_def)

lemma example_merge:
  "mergeResponses example_error_page (Some example_original) None = Inr example_merged"
  by (simp add: mergeResponses_def example_error_page_def example_original_def example_merged_def
      new_Response_def header_eval)

text \<open>
  C1. Whenever the merge is called with an original response, the response it returns has
  the override's status if an override is supplied, else the new response's status if the
  original's status is exactly 200, else the original's status. The merge returns a
  response whenever that status is one the \<^verbatim>\<open>Response\<close> constructor accepts for the new
  response's body.
\<close>

theorem mergeResponses_final_status:
  "(\<forall>r. mergeResponses newResponse (Some orig) override = Inr r \<longrightarrow>
        status r = (case override of
                      Some ov \<Rightarrow> status_code ov
                    | None \<Rightarrow> if status orig = 200 then status newResponse else status orig))
   \<and> (200 \<le> merged_status newResponse orig override \<and>
      merged_status newResponse orig override \<le> 599 \<and>
      (body newResponse = None \<or> merged_status newResponse orig override \<notin> {204, 205, 304})
      \<longrightarrow> (\<exists>r. mergeResponses newResponse (Some orig) override = Inr r))"
proof (intro conjI allI impI)
  fix r
  assume "mergeResponses newResponse (Some orig) override = Inr r"
  then have "status r = merged_status newResponse orig override"
    unfolding mergeResponses_Some_eq using new_Response_status by fastforce
  then show "status r = (case override of
                      Some ov \<Rightarrow> status_code ov
                    | None \<Rightarrow> if status orig = 200 then status newResponse else status orig)"
    by (simp add: merged_status_def)
next
  assume "200 \<le> merged_status newResponse orig override \<and>
      merged_status newResponse orig override \<le> 599 \<and>
      (body newResponse = None \<or> merged_status newResponse orig override \<notin> {204, 205, 304})"
  then show "\<exists>r. mergeResponses newResponse (Some orig) override = Inr r"
    unfolding mergeResponses_Some_eq by (intro new_Response_returns) simp_all
qed

text \<open>
  The page's 404 and the error page's 200 merge into a 404: the original's status is not
  200, so it is kept.
\<close>

theorem mergeResponses_final_status_witness:
  "mergeResponses example_error_page (Some example_original) None = Inr example_merged
   \<and> status example_original = 404 \<and> status example_merged = 404"
proof -
  have m: "mergeResponses example_error_page (Some example_original) None = Inr example_merged"
    by (rule example_merge)
  with mergeResponses_final_status[of example_error_page example_original None]
  have "status example_merged =
          (if status example_original = 200 then status example_error_page
           else status example_original)"
    by simp
  then show ?thesis using m by (simp add: example_original_def)
qed





text \<open>
  The values are trimmed once more when the \<^verbatim>\<open>Response\<close> constructor copies the combined
  list: an error page with \<^verbatim>\<open>x-a: a\<close> merged with a page response whose \<^verbatim>\<open>x-a\<close> is empty
  answers \<^verbatim>\<open>a,\<close> without the space.
\<close>

lemma mergeResponses_empty_value_example:
  "\<exists>r. mergeResponses (example_error_page\<lparr>headers := new_Headers [(''x-a'', ''a'')]\<rparr>)
          (Some (example_original\<lparr>headers := new_Headers [(''x-a'', [])]\<rparr>)) None = Inr r
       \<and> Headers_get (headers r) ''x-a'' = Some ''a,''"
  by (simp add: mergeResponses_def new_Response_def example_error_page_def example_original_def
      header_eval)

section \<open>Properties of the redirects\<close>






lemma split_first_no_bracket:
  "CHR ''['' \<notin> set t \<Longrightarrow> split_first (CHR ''['' # p) t = None"
  by (induction t) auto

lemma split_first_at:
  "CHR ''['' \<notin> set pre \<Longrightarrow>
   split_first (CHR ''['' # p) (pre @ CHR ''['' # p @ post) = Some (pre, post)"
  by (induction pre) auto

lemma String_replace_first:
  "CHR ''['' \<notin> set pre \<Longrightarrow>
   String_replace (pre @ CHR ''['' # p @ post) (CHR ''['' # p) v =
     pre @ GetSubstitution (CHR ''['' # p) pre post v @ post"
  by (simp add: String_replace_def split_first_at del: split_first.simps)

lemma String_replace_absent:
  "CHR ''['' \<notin> set t \<Longrightarrow> String_replace t (CHR ''['' # p) v = t"
  by (simp add: String_replace_def split_first_no_bracket)

text \<open>
  C9, as the code has it. For a redirect route without target route whose destination is
  a string template in which \<^verbatim>\<open>[slug]\<close> occurs once and no other bracket occurs,
  generating with \<^verbatim>\<open>{ slug: "abc" }\<close> gives the template with \<^verbatim>\<open>[slug]\<close> replaced by
  \<^verbatim>\<open>abc\<close>, and no bracket remains.
\<close>

theorem redirectRouteGenerate_slug:
  assumes "redirectRoute r = None"
    and "redirect r = Some (RedirectString (pre @ ''[slug]'' @ post))"
    and "CHR ''['' \<notin> set pre \<union> set post" and "CHR '']'' \<notin> set pre \<union> set post"
  shows "redirectRouteGenerate r [(''slug'', Some ''abc'')] = pre @ ''abc'' @ post
         \<and> CHR ''['' \<notin> set (redirectRouteGenerate r [(''slug'', Some ''abc'')])
         \<and> CHR '']'' \<notin> set (redirectRouteGenerate r [(''slug'', Some ''abc'')])"
proof -
  have 1: "String_replace (pre @ ''[slug]'' @ post) ''[slug]'' ''abc'' = pre @ ''abc'' @ post"
    using assms(3) String_replace_first[of pre "''slug]''" post "''abc''"] by simp
  have 2: "String_replace (pre @ ''abc'' @ post) ''[...slug]'' ''abc'' = pre @ ''abc'' @ post"
    using assms(3) String_replace_absent[of "pre @ ''abc'' @ post" "''...slug]''" "''abc''"] by simp
  have "redirectRouteGenerate r [(''slug'', Some ''abc'')] = pre @ ''abc'' @ post"
    using assms(1,2) 1 2 by (simp add: redirectRouteGenerate_def ToString_def)
  then show ?thesis using assms(3,4) by simp
qed

theorem redirectRouteGenerate_slug_witness:
  "redirectRouteGenerate (example_slug_route ''/articles/[slug]/'') [(''slug'', Some ''abc'')]
     = ''/articles/abc/''"
  using redirectRouteGenerate_slug[of "example_slug_route ''/articles/[slug]/''" "''/articles/''" "''/''"]
  by (simp add: example_slug_route_def)

text \<open>
  C9 as the specification words it does not hold: only the parameters that are given are
  substituted, so a template with a second token keeps it.
\<close>

theorem redirectRouteGenerate_slug_counterexample:
  "redirect (example_slug_route ''/[lang]/[slug]'') = Some (RedirectString ''/[lang]/[slug]'')
   \<and> redirectRouteGenerate (example_slug_route ''/[lang]/[slug]'') [(''slug'', Some ''abc'')]
     = ''/[lang]/abc''"
  by (simp add: example_slug_route_def redirectRouteGenerate_def ToString_def String_replace_def)

section \<open>Properties of the default status\<close>

lemma endsWith_iff: "endsWith s p \<longleftrightarrow> (\<exists>pre. s = pre @ p)"
proof
  assume "endsWith s p"
  then have "s = take (length s - length p) s @ p"
    by (simp add: endsWith_def) (metis append_take_drop_id)
  then show "\<exists>pre. s = pre @ p" ..
next
  assume "\<exists>pre. s = pre @ p"
  then show "endsWith s p" by (auto simp: endsWith_def)
qed

lemma removeTrailingForwardSlash_endsWith:
  "c \<noteq> CHR ''/'' \<Longrightarrow>
   endsWith (removeTrailingForwardSlash s) (q @ [c]) \<longleftrightarrow>
     (\<exists>pre. s = pre @ q @ [c] \<or> s = pre @ q @ [c] @ ''/'')"
proof (cases "endsWith s ''/''")
  case True
  assume c: "c \<noteq> CHR ''/''"
  from True obtain t where t: "s = t @ ''/''" by (auto simp: endsWith_iff)
  have "\<And>pre. t @ ''/'' \<noteq> pre @ q @ [c]"
  proof
    fix pre assume "t @ ''/'' = pre @ q @ [c]"
    then have "last (t @ ''/'') = last (pre @ q @ [c])" by simp
    with c show False by simp
  qed
  with True t show ?thesis
    by (simp add: removeTrailingForwardSlash_def endsWith_iff[of t])
       (metis append_assoc)
next
  case False
  have "\<And>pre. s \<noteq> pre @ q @ [c] @ ''/''"
  proof
    fix pre assume "s = pre @ q @ [c] @ ''/''"
    then have "s = (pre @ q @ [c]) @ ''/''" by simp
    with False show False unfolding endsWith_iff by blast
  qed
  with False show ?thesis
    by (simp add: removeTrailingForwardSlash_def endsWith_iff[of s])
qed

text \<open>
  C6, as the code has it. The default status is 302 if the path name does not match the
  route's own pattern and matches one of its fallback routes; otherwise 404 if the route's
  path, after one trailing slash is dropped, ends with \<^verbatim>\<open>/404\<close>; otherwise 500 if it
  ends with \<^verbatim>\<open>/500\<close>; otherwise 200.
\<close>

theorem getDefaultStatusCode_cases:
  "getDefaultStatusCode routeData p =
     (if \<not> pattern routeData p \<and> (\<exists>f \<in> set (fallbackRoutes routeData). pattern f p) then 302
      else if (\<exists>pre. route routeData = pre @ ''/404'' \<or> route routeData = pre @ ''/404/'') then 404
      else if (\<exists>pre. route routeData = pre @ ''/500'' \<or> route routeData = pre @ ''/500/'') then 500
      else 200)"
proof -
  have a: "endsWith (removeTrailingForwardSlash (route routeData)) ''/404'' \<longleftrightarrow>
        (\<exists>pre. route routeData = pre @ ''/404'' \<or> route routeData = pre @ ''/404/'')"
    using removeTrailingForwardSlash_endsWith[of "CHR ''4''" "route routeData" "''/40''"] by simp
  have b: "endsWith (removeTrailingForwardSlash (route routeData)) ''/500'' \<longleftrightarrow>
        (\<exists>pre. route routeData = pre @ ''/500'' \<or> route routeData = pre @ ''/500/'')"
    using removeTrailingForwardSlash_endsWith[of "CHR ''0''" "route routeData" "''/50''"] by simp
  show ?thesis
    unfolding getDefaultStatusCode_def a b by (simp add: list_ex_iff)
qed

theorem getDefaultStatusCode_cases_witness:
  "getDefaultStatusCode
     (example_page_route ''/start'' ''start'' [example_page_route ''/it/start'' ''start'' []])
     ''/it/start'' = 302
   \<and> getDefaultStatusCode (example_page_route ''/404/'' ''404'' []) ''/404/'' = 404
   \<and> getDefaultStatusCode (example_page_route ''/500'' ''500'' []) ''/500'' = 500
   \<and> getDefaultStatusCode (example_page_route ''/'' ''index'' []) ''/'' = 200"
proof -
  have "getDefaultStatusCode
     (example_page_route ''/start'' ''start'' [example_page_route ''/it/start'' ''start'' []])
     ''/it/start'' = 302"
    unfolding getDefaultStatusCode_cases by (simp add: example_page_route_def)
  moreover have "getDefaultStatusCode (example_page_route ''/404/'' ''404'' []) ''/404/'' = 404"
    unfolding getDefaultStatusCode_cases by (simp add: example_page_route_def)
  moreover have "getDefaultStatusCode (example_page_route ''/500'' ''500'' []) ''/500'' = 500"
    unfolding getDefaultStatusCode_cases by (simp add: example_page_route_def)
  moreover have "getDefaultStatusCode (example_page_route ''/'' ''index'' []) ''/'' = 200"
    unfolding getDefaultStatusCode_cases
    by (simp add: example_page_route_def append_eq_Cons_conv)
  ultimately show ?thesis by simp
qed

text \<open>
  C6 as the specification words it does not hold: the route \<^verbatim>\<open>/blog/404\<close> is not
  literally \<^verbatim>\<open>/404\<close> and has no fallback routes, and its default status is 404, not 200.
\<close>

theorem getDefaultStatusCode_counterexample:
  "route (example_page_route ''/blog/404'' ''blog404'' []) = ''/blog/404''
   \<and> fallbackRoutes (example_page_route ''/blog/404'' ''blog404'' []) = []
   \<and> getDefaultStatusCode (example_page_route ''/blog/404'' ''blog404'' []) ''/blog/404'' = 404"
  by (simp add: example_page_route_def getDefaultStatusCode_def removeTrailingForwardSlash_def
      endsWith_def)

section \<open>Properties of the pipeline\<close>

lemmas example_defs = example_site_def example_app_def example_app_state_def example_routes_def
  example_page_route_def example_redirect_route_def example_endpoint_route_def
  example_fallback_route_def example_module_def example_component_def example_request_def
  example_context_def example_handler_def example_broken_middleware_def

lemmas dispatch_defs = resolved_route_def args_routeData_def args_locals_def app_after_args_def
  request_collapsed_def request_with_locals_def match_def removeBase_def startsWith_def
  baseWithoutTrailingSlash_def removeTrailingForwardSlash_def endsWith_def prependForwardSlash_def
  render_setup_def getPathnameFromRequest_def getDefaultStatusCode_def getModuleForRoute_def
  App_createRenderContext_def configureMiddleware_def invoke_pipeline_def renderRoute_def
  tryRenderRoute_def renderPage_def routeIsRedirect_def routeIsFallback_def
  setMiddlewareFunction_def unsetMiddlewareFunction_def errorRoutePath_def renderError_try_def renderError_middleware_def
  renderError_bodyless_def

lemmas merge_defs = bodyless_def new_Response_def mergeResponses_def example_original_def
  example_error_page_def example_home_def example_bare_404_def example_merged_def header_eval

text \<open>
  C10. When the route of the render context (as the pre-render hooks leave it) is an
  endpoint and no endpoint-result handler is set, \<^verbatim>\<open>renderRoute\<close> throws; when the endpoint
  has produced a result, what it throws is the pipeline's own error, and the raw result is
  not returned. When a handler is set, \<^verbatim>\<open>renderRoute\<close> returns exactly the handler applied
  to the context's request and the endpoint's result.
\<close>

theorem renderRoute_endpoint:
  "(p_endpointHandler pl = None \<and>
    (\<forall>c. run_hooks (p_hooks_before pl) renderContext componentInstance = Inr c \<longrightarrow>
         type (ctx_route c) = Endpoint)
    \<longrightarrow> (\<exists>e. renderRoute ext pl renderContext componentInstance = Inl e))
   \<and> (\<forall>c result.
        run_hooks (p_hooks_before pl) renderContext componentInstance = Inr c \<and>
        type (ctx_route c) = Endpoint \<and> p_endpointHandler pl = None \<and>
        tryRenderRoute ext c componentInstance (p_onRequest pl) = Inr result \<longrightarrow>
        renderRoute ext pl renderContext componentInstance =
          Inl (Error ''You created a pipeline that does not know how to handle the result coming from an endpoint.''))
   \<and> (\<forall>c handler result.
        run_hooks (p_hooks_before pl) renderContext componentInstance = Inr c \<and>
        type (ctx_route c) = Endpoint \<and> p_endpointHandler pl = Some handler \<and>
        tryRenderRoute ext c componentInstance (p_onRequest pl) = Inr result \<longrightarrow>
        renderRoute ext pl renderContext componentInstance = handler (ctx_request c) result)"
  by (auto simp: renderRoute_def split: sum.splits)

text \<open>
  The endpoint of the sample site: with the handler its result comes back handled, without
  a handler the call throws.
\<close>

theorem renderRoute_endpoint_witness:
  "renderRoute example_site (pipeline (example_app None))
     (example_context ''GET'' example_endpoint_route []) None
     = Inr (example_home\<lparr>statusText := ''handled''\<rparr>)
   \<and> renderRoute example_site ((pipeline (example_app None))\<lparr>p_endpointHandler := None\<rparr>)
     (example_context ''GET'' example_endpoint_route []) None
     = Inl (Error ''You created a pipeline that does not know how to handle the result coming from an endpoint.'')"
proof -
  let ?ctx = "example_context ''GET'' example_endpoint_route []"
  let ?pl = "pipeline (example_app None)"
  have hooks: "run_hooks (p_hooks_before ?pl) ?ctx None = Inr ?ctx"
    and hooks': "run_hooks (p_hooks_before (?pl\<lparr>p_endpointHandler := None\<rparr>)) ?ctx None = Inr ?ctx"
    and ty: "type (ctx_route ?ctx) = Endpoint"
    and handler: "p_endpointHandler ?pl = Some example_handler"
    and none: "p_endpointHandler (?pl\<lparr>p_endpointHandler := None\<rparr>) = None"
    and raw: "tryRenderRoute example_site ?ctx None (p_onRequest ?pl) = Inr example_home"
    and raw': "tryRenderRoute example_site ?ctx None (p_onRequest (?pl\<lparr>p_endpointHandler := None\<rparr>))
                = Inr example_home"
    by (simp_all add: example_defs tryRenderRoute_def)
  from renderRoute_endpoint[of ?pl ?ctx None example_site] hooks ty handler raw
  have "renderRoute example_site ?pl ?ctx None = example_handler (ctx_request ?ctx) example_home"
    by blast
  moreover
  from renderRoute_endpoint[of "?pl\<lparr>p_endpointHandler := None\<rparr>" ?ctx None example_site]
    hooks' ty none raw'
  have "renderRoute example_site (?pl\<lparr>p_endpointHandler := None\<rparr>) ?ctx None
     = Inl (Error ''You created a pipeline that does not know how to handle the result coming from an endpoint.'')"
    by blast
  ultimately show ?thesis by (simp add: example_handler_def)
qed

section \<open>Properties of the dispatch\<close>

lemma render_reaches_pipeline:
  assumes "resolved_route ext app request0 args = Some routeData"
    and "render_setup ext (app_after_args app args) (request_with_locals ext request0 args) routeData
           = Inr (modl, pm, renderContext)"
  shows "render ext app request0 args =
           render_outcome ext
             (snd (invoke_pipeline ext (configureMiddleware ext (app_after_args app args) modl)
                     renderContext (Some pm)))
             (request_with_locals ext request0 args) routeData
             (renderRoute ext (pipeline (configureMiddleware ext (app_after_args app args) modl))
                renderContext (Some pm))"
  using assms by (simp add: render_def invoke_pipeline_def)

lemma renderError_bodyless_None:
  "renderError_bodyless app st None = (Inr (bodyless st), app)"
  by (cases st)
     (simp_all add: renderError_bodyless_def new_Response_def mergeResponses_def bodyless_def
        new_Headers_def normalize_pairs_def)

lemma renderError_bodyless_Some:
  "fst (renderError_bodyless app st (Some orig)) = Inr r \<Longrightarrow>
     body r = None \<and> responseSent r \<and>
     status r = (if status orig = 200 then status_code st else status orig)"
  by (cases st)
     (auto simp: renderError_bodyless_def new_Response_def mergeResponses_def Let_def
           split: if_splits)

lemma renderError_bodyless_app: "snd (renderError_bodyless app st orig) = app"
  by (auto simp: renderError_bodyless_def split: sum.splits)

lemma renderError_bodyless_result:
  assumes "fst (renderError_bodyless app st orig) = Inr r"
  shows "body r = None \<and>
        status r = (case orig of
                      None \<Rightarrow> status_code st
                    | Some original \<Rightarrow> if status original = 200 then status_code st
                                       else status original)"
proof (cases orig)
  case None
  with assms show ?thesis by (auto simp: renderError_bodyless_None bodyless_def)
next
  case (Some original)
  with assms renderError_bodyless_Some[of app st original r] show ?thesis by simp
qed

lemma renderError_try_invocations:
  "length (invocations (snd (renderError_try ext app request st orig skip erd modl)))
     \<le> length (invocations app) + 1"
  by (auto simp: renderError_try_def invoke_pipeline_def renderError_middleware_def Let_def
           split: sum.splits option.splits)

lemma renderError_try_returns:
  assumes "App_createRenderContext ext app request erd modl (status_code st) = Inr renderContext"
    and "page modl = Inr pg"
    and "renderRoute ext (pipeline (renderError_middleware app modl skip)) renderContext (Some pg)
           = Inr response"
  shows "fst (renderError_try ext app request st None skip erd modl) = Inr response"
  using assms by (simp add: renderError_try_def invoke_pipeline_def mergeResponses_def)

lemma renderError_no_route:
  "matchRoute ext (errorRoutePath app st) (manifestData app) = None \<Longrightarrow>
   renderError ext app request st orig skip = renderError_bodyless app st orig"
  by (subst renderError.simps) simp

lemma renderError_dynamic:
  assumes "matchRoute ext (errorRoutePath app st) (manifestData app) = Some erd"
    and "\<not> prerender erd" and "getModuleForRoute ext app erd = Inr modl"
  shows "renderError ext app request st orig skip =
     (case renderError_try ext app request st orig skip erd modl of
        (Inr response, app') \<Rightarrow> (Inr response, app')
      | (Inl e, app') \<Rightarrow>
          if \<not> skip \<and> onRequest modl \<noteq> None
          then renderError ext app' request st orig True
          else renderError_bodyless app' st orig)"
  using assms by (subst renderError.simps) simp

lemma renderError_prerendered:
  assumes "matchRoute ext (errorRoutePath app st) (manifestData app) = Some erd"
    and "prerender erd"
  shows "renderError ext app request st orig skip =
     (case fetch ext (statusURL ext app request st erd) of
        Inl e \<Rightarrow> (Inl e, app)
      | Inr response \<Rightarrow> (mergeResponses response orig (Some st), app))"
  using assms by (subst renderError.simps) simp

lemma renderError_no_module:
  assumes "matchRoute ext (errorRoutePath app st) (manifestData app) = Some erd"
    and "\<not> prerender erd" and "getModuleForRoute ext app erd = Inl e"
  shows "renderError ext app request st orig skip = (Inl e, app)"
  using assms by (subst renderError.simps) simp

lemma renderError_bound_aux:
  assumes retry: "\<And>app'. \<not> skip \<Longrightarrow>
      length (invocations (snd (renderError ext app' request st orig True)))
        \<le> length (invocations app') + 1"
  shows "length (invocations (snd (renderError ext app request st orig skip)))
     \<le> length (invocations app) + (if skip then 1 else 2)"
proof (cases "matchRoute ext (errorRoutePath app st) (manifestData app)")
  case None
  then show ?thesis by (simp add: renderError_no_route renderError_bodyless_app)
next
  case (Some erd)
  show ?thesis
  proof (cases "prerender erd")
    case True
    with Some show ?thesis by (simp add: renderError_prerendered split: sum.splits)
  next
    case False
    show ?thesis
    proof (cases "getModuleForRoute ext app erd")
      case (Inl e)
      with Some False show ?thesis by (simp add: renderError_no_module)
    next
      case (Inr modl)
      obtain outcome app' where t: "renderError_try ext app request st orig skip erd modl = (outcome, app')"
        by (cases "renderError_try ext app request st orig skip erd modl")
      have b: "length (invocations app') \<le> length (invocations app) + 1"
        using renderError_try_invocations[of ext app request st orig skip erd modl] t by simp
      show ?thesis
      proof (cases outcome)
        case (Inr response)
        with Some False \<open>getModuleForRoute ext app erd = Inr modl\<close> t b show ?thesis
          by (simp add: renderError_dynamic)
      next
        case (Inl e)
        show ?thesis
        proof (cases "\<not> skip \<and> onRequest modl \<noteq> None")
          case True
          then have "renderError ext app request st orig skip = renderError ext app' request st orig True"
            using Some False \<open>getModuleForRoute ext app erd = Inr modl\<close> t Inl
            by (simp add: renderError_dynamic)
          with retry[of app'] True b show ?thesis by simp
        next
          case no: False
          then have "renderError ext app request st orig skip = renderError_bodyless app' st orig"
            using Some False \<open>getModuleForRoute ext app erd = Inr modl\<close> t Inl
            by (auto simp: renderError_dynamic)
          with b show ?thesis by (simp add: renderError_bodyless_app)
        qed
      qed
    qed
  qed
qed

lemma renderError_skip_bound:
  "length (invocations (snd (renderError ext app request st orig True)))
     \<le> length (invocations app) + 1"
  using renderError_bound_aux[of True ext request st orig app] by simp

lemma renderError_bound:
  "length (invocations (snd (renderError ext app request st orig skip)))
     \<le> length (invocations app) + (if skip then 1 else 2)"
  by (rule renderError_bound_aux) (rule renderError_skip_bound)

lemma mergeResponses_forced_404:
  "\<exists>r. mergeResponses document None (Some S404) = Inr r \<and> status r = 404 \<and> body r = body document"
  by (simp add: mergeResponses_def new_Response_def)

lemma example_resolved:
  "resolved_route example_site (example_app None)
     (example_request ''GET'' ''http://example.com/boom'') (Positional None None)
     = Some (example_page_route ''/boom'' ''boom'' [])"
  "resolved_route example_site (example_app None)
     (example_request ''GET'' ''http://example.com/gone'') (Positional None None)
     = Some (example_page_route ''/gone'' ''gone'' [])"
  "resolved_route example_site (example_app None)
     (example_request ''GET'' ''http://example.com/'') (Positional None None)
     = Some (example_page_route ''/'' ''index'' [])"
  "resolved_route example_site (example_app None)
     (example_request ''GET'' ''http://example.com/missing'') (Positional None None) = None"
  "resolved_route example_site (example_app None)
     (example_request ''GET'' ''http://example.com/void'') (Positional None None)
     = Some (example_page_route ''/void'' ''void'' [])"
  by (simp_all add: example_defs dispatch_defs)

lemma example_setup:
  "render_setup example_site (app_after_args (example_app None) (Positional None None))
     (request_with_locals example_site (example_request ''GET'' ''http://example.com/boom'')
        (Positional None None))
     (example_page_route ''/boom'' ''boom'' [])
     = Inr (example_module None ''boom'', \<lparr>default_export = Some (example_component ''boom'')\<rparr>,
            example_page_context ''/boom'' ''boom'' 200)"
  "render_setup example_site (app_after_args (example_app None) (Positional None None))
     (request_with_locals example_site (example_request ''GET'' ''http://example.com/gone'')
        (Positional None None))
     (example_page_route ''/gone'' ''gone'' [])
     = Inr (example_module None ''gone'', \<lparr>default_export = Some (example_component ''gone'')\<rparr>,
            example_page_context ''/gone'' ''gone'' 200)"
  "render_setup example_site (app_after_args (example_app None) (Positional None None))
     (request_with_locals example_site (example_request ''GET'' ''http://example.com/'')
        (Positional None None))
     (example_page_route ''/'' ''index'' [])
     = Inr (example_module None ''index'', \<lparr>default_export = Some (example_component ''index'')\<rparr>,
            example_page_context ''/'' ''index'' 200)"
  "render_setup example_site (app_after_args (example_app None) (Positional None None))
     (request_with_locals example_site (example_request ''GET'' ''http://example.com/void'')
        (Positional None None))
     (example_page_route ''/void'' ''void'' [])
     = Inr (example_module None ''void'', \<lparr>default_export = Some (example_component ''void'')\<rparr>,
            example_page_context ''/void'' ''void'' 200)"
  by (simp_all add: example_defs dispatch_defs example_page_context_def example_request_seen_def)

lemma example_rendered:
  "renderRoute example_site
     (pipeline (configureMiddleware example_site (app_after_args (example_app None) (Positional None None))
                  (example_module None ''boom'')))
     (example_page_context ''/boom'' ''boom'' 200)
     (Some \<lparr>default_export = Some (example_component ''boom'')\<rparr>) = Inl (Error ''boom'')"
  "renderRoute example_site
     (pipeline (configureMiddleware example_site (app_after_args (example_app None) (Positional None None))
                  (example_module None ''gone'')))
     (example_page_context ''/gone'' ''gone'' 200)
     (Some \<lparr>default_export = Some (example_component ''gone'')\<rparr>) = Inr example_original"
  "renderRoute example_site
     (pipeline (configureMiddleware example_site (app_after_args (example_app None) (Positional None None))
                  (example_module None ''index'')))
     (example_page_context ''/'' ''index'' 200)
     (Some \<lparr>default_export = Some (example_component ''index'')\<rparr>) = Inr example_home"
  "renderRoute example_site
     (pipeline (configureMiddleware example_site (app_after_args (example_app None) (Positional None None))
                  (example_module None ''void'')))
     (example_page_context ''/void'' ''void'' 200)
     (Some \<lparr>default_export = Some (example_component ''void'')\<rparr>) = Inl Nullish"
  by (simp_all add: example_defs dispatch_defs example_page_context_def example_request_seen_def)

lemma example_after_render:
  "snd (invoke_pipeline example_site
          (configureMiddleware example_site (app_after_args (example_app None) (Positional None None))
             (example_module None c))
          (example_page_context r c 200)
          (Some \<lparr>default_export = Some (example_component c)\<rparr>))
     = example_app_state None None [] [(r, False)]"
  by (simp add: example_defs dispatch_defs example_page_context_def example_request_seen_def)

lemma example_seen:
  "request_with_locals example_site (example_request m u) (Positional None None)
     = example_request_seen m u"
  "request_with_locals example_site (example_request m u) (Options rd None)
     = example_request_seen m u"
  by (simp_all add: example_defs dispatch_defs example_request_seen_def)

lemma example_errors:
  "renderError example_site
     (example_app_state None None [ErrorText (Error ''boom'')] [(''/boom'', False)])
     (example_request_seen ''GET'' ''http://example.com/boom'') S500 None False
     = (Inr (bodyless S500),
        example_app_state None None [ErrorText (Error ''boom'')]
          [(''/boom'', False), (''/500'', False)])"
  "renderError example_site (example_app_state None None [] [(''/gone'', False)])
     (example_request_seen ''GET'' ''http://example.com/gone'') S404 (Some example_original) False
     = (Inr example_merged, example_app_state None None [] [(''/gone'', False), (''/404'', False)])"
  by (simp_all add: renderError.simps example_defs dispatch_defs example_request_seen_def merge_defs)

text \<open>
  The \<^verbatim>\<open>catch\<close> block of \<^verbatim>\<open>render\<close> for a thrown value that is neither \<^verbatim>\<open>null\<close> nor
  \<^verbatim>\<open>undefined\<close>: for an endpoint-not-found error \<^verbatim>\<open>render\<close> is the 404 fallback with
  the response the error carries as the original response, for every other such value
  the 500 fallback with no original response, after the value has been written to the log.
\<close>

lemma render_catch:
  assumes "resolved_route ext app request0 args = Some routeData"
    and "render_setup ext (app_after_args app args) (request_with_locals ext request0 args) routeData
           = Inr (modl, pm, renderContext)"
    and "renderRoute ext (pipeline (configureMiddleware ext (app_after_args app args) modl))
           renderContext (Some pm) = Inl err"
    and "app1 = snd (invoke_pipeline ext (configureMiddleware ext (app_after_args app args) modl)
                       renderContext (Some pm))"
    and "request = request_with_locals ext request0 args"
  shows "(\<forall>originalResponse. err = EndpointNotFoundError originalResponse \<longrightarrow>
            render ext app request0 args = renderError ext app1 request S404 originalResponse False)
       \<and> ((\<forall>originalResponse. err \<noteq> EndpointNotFoundError originalResponse) \<and> err \<noteq> Nullish \<longrightarrow>
            render ext app request0 args =
              renderError ext (app1\<lparr>logger := logger app1 @ [ErrorText err]\<rparr>) request S500 None False)"
  unfolding render_reaches_pipeline[OF assms(1,2)] assms(3) assms(4)[symmetric] assms(5)[symmetric]
  by (cases err) (simp_all add: render_outcome_def)

text \<open>
  The page \<^verbatim>\<open>/boom\<close> of the sample site throws an error: \<^verbatim>\<open>render\<close> is the 500 fallback,
  which here ends in the response without body.
\<close>

lemma render_catch_example:
  "render example_site (example_app None) (example_request ''GET'' ''http://example.com/boom'')
     (Positional None None)
   = renderError example_site
       (example_app_state None None [ErrorText (Error ''boom'')] [(''/boom'', False)])
       (example_request_seen ''GET'' ''http://example.com/boom'') S500 None False
   \<and> render example_site (example_app None) (example_request ''GET'' ''http://example.com/boom'')
       (Positional None None)
     = (Inr (bodyless S500),
        example_app_state None None [ErrorText (Error ''boom'')]
          [(''/boom'', False), (''/500'', False)])"
proof -
  from render_catch[OF example_resolved(1) example_setup(1) example_rendered(1) refl refl]
  have "render example_site (example_app None) (example_request ''GET'' ''http://example.com/boom'')
     (Positional None None)
   = renderError example_site
       (example_app_state None None [ErrorText (Error ''boom'')] [(''/boom'', False)])
       (example_request_seen ''GET'' ''http://example.com/boom'') S500 None False"
    by (simp add: example_after_render example_seen) (simp add: example_app_state_def)
  then show ?thesis by (simp add: example_errors)
qed

text \<open>
  C8 at the input where the code departs from it. When the pipeline's render of the
  matched route throws \<^verbatim>\<open>null\<close> or \<^verbatim>\<open>undefined\<close>, the \<^verbatim>\<open>catch\<close> block of \<^verbatim>\<open>render\<close>
  itself throws a \<^verbatim>\<open>TypeError\<close> at \<^verbatim>\<open>err.stack\<close>: nothing is logged, no 500 fallback is
  rendered, and \<^verbatim>\<open>render\<close> ends with that exception.
\<close>

theorem render_catch_nullish:
  assumes "resolved_route ext app request0 args = Some routeData"
    and "render_setup ext (app_after_args app args) (request_with_locals ext request0 args) routeData
           = Inr (modl, pm, renderContext)"
    and "renderRoute ext (pipeline (configureMiddleware ext (app_after_args app args) modl))
           renderContext (Some pm) = Inl Nullish"
  shows "render ext app request0 args =
           (Inl TypeError,
            snd (invoke_pipeline ext (configureMiddleware ext (app_after_args app args) modl)
                   renderContext (Some pm)))"
  unfolding render_reaches_pipeline[OF assms(1,2)] assms(3)
  by (simp add: render_outcome_def)

text \<open>
  The page \<^verbatim>\<open>/void\<close> of the sample site rejects with \<^verbatim>\<open>undefined\<close>: \<^verbatim>\<open>render\<close> ends with a
  \<^verbatim>\<open>TypeError\<close> after the one render of the page, with an empty log, although the site has
  a 500 page.
\<close>

theorem render_catch_nullish_witness:
  "render example_site (example_app None) (example_request ''GET'' ''http://example.com/void'')
     (Positional None None)
   = (Inl TypeError, example_app_state None None [] [(''/void'', False)])"
  using render_catch_nullish[OF example_resolved(5) example_setup(4) example_rendered(4)]
  by (simp add: example_after_render)

text \<open>
  C2, as the code has it. When the pipeline's render of the matched route returns a
  response: for a page or a redirect, a status of 404 or 500 makes \<^verbatim>\<open>render\<close> the error
  fallback with that response as the original response, and a response with any other
  status is returned, marked as sent; for an endpoint or a fallback route the response
  is returned as it is, whatever its status.
\<close>

theorem render_error_status:
  assumes "resolved_route ext app request0 args = Some routeData"
    and "render_setup ext (app_after_args app args) (request_with_locals ext request0 args) routeData
           = Inr (modl, pm, renderContext)"
    and "renderRoute ext (pipeline (configureMiddleware ext (app_after_args app args) modl))
           renderContext (Some pm) = Inr response"
    and "app1 = snd (invoke_pipeline ext (configureMiddleware ext (app_after_args app args) modl)
                       renderContext (Some pm))"
    and "request = request_with_locals ext request0 args"
  shows "(type routeData = Page \<or> type routeData = Redirect \<longrightarrow>
           (status response = 404 \<longrightarrow>
              render ext app request0 args = renderError ext app1 request S404 (Some response) False)
         \<and> (status response = 500 \<longrightarrow>
              render ext app request0 args = renderError ext app1 request S500 (Some response) False)
         \<and> (status response \<noteq> 404 \<and> status response \<noteq> 500 \<longrightarrow>
              render ext app request0 args = (Inr (response\<lparr>responseSent := True\<rparr>), app1)))
       \<and> (type routeData = Endpoint \<or> type routeData = Fallback \<longrightarrow>
            render ext app request0 args = (Inr response, app1))"
  unfolding render_reaches_pipeline[OF assms(1,2)] assms(3) assms(4)[symmetric] assms(5)[symmetric]
  by (auto simp: render_outcome_def)

text \<open>
  The page \<^verbatim>\<open>/gone\<close> of the sample site answers 404: \<^verbatim>\<open>render\<close> is the 404 fallback,
  which merges the error page with the page's response. The home page answers 200 and is
  returned.
\<close>

theorem render_error_status_witness:
  "render example_site (example_app None) (example_request ''GET'' ''http://example.com/gone'')
     (Positional None None)
   = renderError example_site (example_app_state None None [] [(''/gone'', False)])
       (example_request_seen ''GET'' ''http://example.com/gone'') S404 (Some example_original) False
   \<and> render example_site (example_app None) (example_request ''GET'' ''http://example.com/gone'')
       (Positional None None)
     = (Inr example_merged, example_app_state None None [] [(''/gone'', False), (''/404'', False)])
   \<and> render example_site (example_app None) (example_request ''GET'' ''http://example.com/'')
       (Positional None None)
     = (Inr (example_home\<lparr>responseSent := True\<rparr>), example_app_state None None [] [(''/'', False)])"
proof -
  from render_error_status[OF example_resolved(2) example_setup(2) example_rendered(2) refl refl]
  have gone: "render example_site (example_app None) (example_request ''GET'' ''http://example.com/gone'')
     (Positional None None)
   = renderError example_site (example_app_state None None [] [(''/gone'', False)])
       (example_request_seen ''GET'' ''http://example.com/gone'') S404 (Some example_original) False"
    by (simp add: example_after_render example_seen example_page_route_def example_original_def)
  from render_error_status[OF example_resolved(3) example_setup(3) example_rendered(3) refl refl]
  have home: "render example_site (example_app None) (example_request ''GET'' ''http://example.com/'')
       (Positional None None)
     = (Inr (example_home\<lparr>responseSent := True\<rparr>), example_app_state None None [] [(''/'', False)])"
    by (simp add: example_after_render example_seen example_page_route_def example_home_def)
  from gone home show ?thesis by (simp add: example_errors)
qed

text \<open>
  C2 as the specification words it does not hold: the fallback route of the sample site,
  a route of its table, is not an endpoint, it renders to a 404, and \<^verbatim>\<open>render\<close> returns
  that response after one call of the pipeline, although the error fallback would have
  answered with the error page.
\<close>

theorem render_fallback_route_counterexample:
  "type example_fallback_route = Fallback
   \<and> example_fallback_route \<in> set (manifestData (example_app None))
   \<and> routeDataToRouteInfo (example_app None) example_fallback_route
       = Some \<lparr>info_scripts = [], info_styles = []\<rparr>
   \<and> resolved_route example_site (example_app None)
       (example_request ''GET'' ''http://example.com/it/start'') (Positional None None)
       = Some example_fallback_route
   \<and> status example_bare_404 = 404
   \<and> render example_site (example_app None) (example_request ''GET'' ''http://example.com/it/start'')
       (Positional None None)
     = (Inr example_bare_404, example_app_state None None [] [(''/it/start'', False)])
   \<and> fst (renderError example_site (example_app_state None None [] [(''/it/start'', False)])
            (example_request_seen ''GET'' ''http://example.com/it/start'') S404
            (Some example_bare_404) False)
     = Inr \<lparr>status = 404, statusText = [],
            headers = new_Headers [(''content-type'', ''text/html''), (''x-custom'', ''0'')],
            body = Some ''<h1>Not Found</h1>'', responseSent = False\<rparr>"
  by (simp add: render_def render_outcome_def renderError.simps example_defs dispatch_defs
      example_request_seen_def merge_defs)

text \<open>
  C5, as the code has it. When no route matches, \<^verbatim>\<open>render\<close> is the 404 fallback without
  original response. If the table has no error route for 404, the response has status 404
  and no body. If it has one that is rendered on demand and whose render returns, the
  response is that render's response, body and status. If it has a prerendered one and
  the fetch of the document returns, the response has status 404 and the document's body.
\<close>

theorem render_no_route:
  assumes "resolved_route ext app request0 args = None"
    and "app0 = app_after_args app args" and "request = request_collapsed ext request0"
  shows "render ext app request0 args = renderError ext app0 request S404 None False
       \<and> (matchRoute ext (errorRoutePath app0 S404) (manifestData app0) = None \<longrightarrow>
            render ext app request0 args = (Inr (bodyless S404), app0))
       \<and> (\<forall>erd modl renderContext pg response.
            matchRoute ext (errorRoutePath app0 S404) (manifestData app0) = Some erd \<and>
            \<not> prerender erd \<and> getModuleForRoute ext app0 erd = Inr modl \<and>
            App_createRenderContext ext app0 request erd modl 404 = Inr renderContext \<and>
            page modl = Inr pg \<and>
            renderRoute ext (pipeline (renderError_middleware app0 modl False)) renderContext (Some pg)
              = Inr response \<longrightarrow>
            fst (render ext app request0 args) = Inr response)
       \<and> (\<forall>erd document.
            matchRoute ext (errorRoutePath app0 S404) (manifestData app0) = Some erd \<and>
            prerender erd \<and> fetch ext (statusURL ext app0 request S404 erd) = Inr document \<longrightarrow>
            (\<exists>r. fst (render ext app request0 args) = Inr r \<and> status r = 404 \<and>
                 body r = body document))"
proof -
  have r: "render ext app request0 args = renderError ext app0 request S404 None False"
    using assms by (simp add: render_def)
  have a: "matchRoute ext (errorRoutePath app0 S404) (manifestData app0) = None \<longrightarrow>
            render ext app request0 args = (Inr (bodyless S404), app0)"
    unfolding r by (simp add: renderError_no_route renderError_bodyless_None)
  have b: "fst (render ext app request0 args) = Inr response"
    if "matchRoute ext (errorRoutePath app0 S404) (manifestData app0) = Some erd"
      and "\<not> prerender erd" and "getModuleForRoute ext app0 erd = Inr modl"
      and "App_createRenderContext ext app0 request erd modl 404 = Inr renderContext"
      and "page modl = Inr pg"
      and "renderRoute ext (pipeline (renderError_middleware app0 modl False)) renderContext (Some pg)
              = Inr response"
    for erd modl renderContext pg response
  proof -
    have "fst (renderError_try ext app0 request S404 None False erd modl) = Inr response"
      using that(4-6) by (intro renderError_try_returns) simp_all
    then show ?thesis
      unfolding r renderError_dynamic[OF that(1-3)]
      by (cases "renderError_try ext app0 request S404 None False erd modl") simp
  qed
  have c: "\<exists>r. fst (render ext app request0 args) = Inr r \<and> status r = 404 \<and> body r = body document"
    if "matchRoute ext (errorRoutePath app0 S404) (manifestData app0) = Some erd"
      and "prerender erd" and "fetch ext (statusURL ext app0 request S404 erd) = Inr document"
    for erd document
    unfolding r renderError_prerendered[OF that(1,2)] that(3)
    using mergeResponses_forced_404[of document] by simp
  from r a b c show ?thesis by blast
qed

text \<open>
  A path the sample site does not know is answered with the response of its 404 page; on
  the site without 404 page it is answered with status 404 and no body.
\<close>

theorem render_no_route_witness:
  "fst (render example_site (example_app None)
          (example_request ''GET'' ''http://example.com/missing'') (Positional None None))
     = Inr example_error_page
   \<and> render example_site example_small_app
          (example_request ''GET'' ''http://example.com/missing'') (Positional None None)
     = (Inr (bodyless S404), example_small_app)
   \<and> status (bodyless S404) = 404 \<and> body (bodyless S404) = None"
proof -
  let ?req = "example_request ''GET'' ''http://example.com/missing''"
  let ?ctx = "\<lparr>ctx_request = ?req, ctx_route = example_page_route ''/404'' ''404'' [],
               ctx_params = [], ctx_pathname = ''/missing'', ctx_status = 404\<rparr>"
  have none: "resolved_route example_site (example_app None) ?req (Positional None None) = None"
    by (rule example_resolved(4))
  have a0: "example_app None = app_after_args (example_app None) (Positional None None)"
    and r0: "?req = request_collapsed example_site ?req"
    by (simp_all add: example_defs dispatch_defs)
  have found: "matchRoute example_site (errorRoutePath (example_app None) S404)
                 (manifestData (example_app None)) = Some (example_page_route ''/404'' ''404'' [])"
    and dynamic: "\<not> prerender (example_page_route ''/404'' ''404'' [])"
    and loaded: "getModuleForRoute example_site (example_app None) (example_page_route ''/404'' ''404'' [])
                   = Inr (example_module None ''404'')"
    and built: "App_createRenderContext example_site (example_app None) ?req
                    (example_page_route ''/404'' ''404'' []) (example_module None ''404'') 404 = Inr ?ctx"
    and pg: "page (example_module None ''404'') = Inr \<lparr>default_export = Some (example_component ''404'')\<rparr>"
    and rendered: "renderRoute example_site
                     (pipeline (renderError_middleware (example_app None) (example_module None ''404'') False))
                     ?ctx (Some \<lparr>default_export = Some (example_component ''404'')\<rparr>)
                   = Inr example_error_page"
    by (simp_all add: example_defs dispatch_defs)
  from render_no_route[OF none a0 r0] found dynamic loaded built pg rendered
  have 1: "fst (render example_site (example_app None) ?req (Positional None None))
             = Inr example_error_page"
    by blast
  have none': "resolved_route example_site example_small_app ?req (Positional None None) = None"
    and a0': "example_small_app = app_after_args example_small_app (Positional None None)"
    and missing: "matchRoute example_site (errorRoutePath example_small_app S404)
                    (manifestData example_small_app) = None"
    by (simp_all add: example_small_app_def example_defs dispatch_defs)
  from render_no_route[OF none' a0' r0] missing
  have 2: "render example_site example_small_app ?req (Positional None None)
             = (Inr (bodyless S404), example_small_app)"
    by blast
  from 1 2 show ?thesis by (simp add: bodyless_def)
qed

text \<open>
  C5 as the specification words it does not hold: the 404 page of the sample site answers
  with status 200, and that is the status of the response for a path that matches no
  route.
\<close>

theorem render_no_route_status_counterexample:
  "resolved_route example_site (example_app None)
     (example_request ''GET'' ''http://example.com/missing'') (Positional None None) = None
   \<and> render example_site (example_app None)
       (example_request ''GET'' ''http://example.com/missing'') (Positional None None)
     = (Inr example_error_page, example_app_state None None [] [(''/404'', False)])
   \<and> status example_error_page = 200"
  by (simp add: render_def renderError.simps example_defs dispatch_defs merge_defs)

text \<open>
  C7, as the code has it. One call of \<^verbatim>\<open>renderError\<close> makes the pipeline render at
  most twice, and at most once when it is called with \<^verbatim>\<open>skipMiddleware = true\<close>: the
  function is total and the retry does not recurse again. When the render of the error
  route throws, the shell retries, with \<^verbatim>\<open>skipMiddleware = true\<close>, exactly when the call was
  not skipping the middleware already and the error route's module has middleware;
  otherwise it gives up at once. Giving up produces a response without body whose status
  is the requested one, unless an original response with a status other than 200 is
  merged in.
\<close>

theorem renderError_retry_bounded:
  "length (invocations (snd (renderError ext app request st orig skip)))
     \<le> length (invocations app) + (if skip then 1 else 2)
   \<and> (\<forall>erd modl e app'.
        matchRoute ext (errorRoutePath app st) (manifestData app) = Some erd \<and> \<not> prerender erd \<and>
        getModuleForRoute ext app erd = Inr modl \<and>
        renderError_try ext app request st orig skip erd modl = (Inl e, app') \<longrightarrow>
        renderError ext app request st orig skip =
          (if \<not> skip \<and> onRequest modl \<noteq> None then renderError ext app' request st orig True
           else renderError_bodyless app' st orig))
   \<and> (\<forall>r. fst (renderError_bodyless app st orig) = Inr r \<longrightarrow>
        body r = None \<and>
        status r = (case orig of
                      None \<Rightarrow> status_code st
                    | Some original \<Rightarrow> if status original = 200 then status_code st
                                       else status original))"
proof -
  have bound: "length (invocations (snd (renderError ext app request st orig skip)))
     \<le> length (invocations app) + (if skip then 1 else 2)"
    by (rule renderError_bound)
  have retry: "renderError ext app request st orig skip =
          (if \<not> skip \<and> onRequest modl \<noteq> None then renderError ext app' request st orig True
           else renderError_bodyless app' st orig)"
    if "matchRoute ext (errorRoutePath app st) (manifestData app) = Some erd" "\<not> prerender erd"
      "getModuleForRoute ext app erd = Inr modl"
      "renderError_try ext app request st orig skip erd modl = (Inl e, app')"
    for erd modl e app'
    using that by (simp add: renderError_dynamic)
  have gives_up: "body r = None \<and>
        status r = (case orig of
                      None \<Rightarrow> status_code st
                    | Some original \<Rightarrow> if status original = 200 then status_code st
                                       else status original)"
    if "fst (renderError_bodyless app st orig) = Inr r" for r
    using that by (rule renderError_bodyless_result)
  from bound retry gives_up show ?thesis by blast
qed

text \<open>
  With a middleware that throws, the 404 page of the sample site is rendered twice: with
  the middleware, and then without it.
\<close>

theorem renderError_retry_bounded_witness:
  "renderError example_site (example_app (Some example_broken_middleware))
     (example_request ''GET'' ''http://example.com/missing'') S404 None False
   = renderError example_site
       (example_app_state (Some example_broken_middleware) (Some example_broken_middleware) []
          [(''/404'', True)])
       (example_request ''GET'' ''http://example.com/missing'') S404 None True
   \<and> renderError example_site (example_app (Some example_broken_middleware))
       (example_request ''GET'' ''http://example.com/missing'') S404 None False
     = (Inr example_error_page,
        example_app_state (Some example_broken_middleware) None [] [(''/404'', True), (''/404'', False)])"
proof -
  let ?mw = "Some example_broken_middleware"
  let ?req = "example_request ''GET'' ''http://example.com/missing''"
  let ?erd = "example_page_route ''/404'' ''404'' []"
  have found: "matchRoute example_site (errorRoutePath (example_app ?mw) S404)
                 (manifestData (example_app ?mw)) = Some ?erd"
    and dynamic: "\<not> prerender ?erd"
    and loaded: "getModuleForRoute example_site (example_app ?mw) ?erd = Inr (example_module ?mw ''404'')"
    and thrown: "renderError_try example_site (example_app ?mw) ?req S404 None False ?erd
                   (example_module ?mw ''404'')
                 = (Inl (Error ''middleware failed''), example_app_state ?mw ?mw [] [(''/404'', True)])"
    and has_mw: "onRequest (example_module ?mw ''404'') \<noteq> None"
    by (simp_all add: example_defs dispatch_defs)
  from renderError_retry_bounded[of example_site "example_app ?mw" ?req S404 None False]
    found dynamic loaded thrown
  have "renderError example_site (example_app ?mw) ?req S404 None False =
          (if \<not> False \<and> onRequest (example_module ?mw ''404'') \<noteq> None
           then renderError example_site (example_app_state ?mw ?mw [] [(''/404'', True)]) ?req S404 None True
           else renderError_bodyless (example_app_state ?mw ?mw [] [(''/404'', True)]) S404 None)"
    by blast
  with has_mw have retry: "renderError example_site (example_app ?mw) ?req S404 None False =
      renderError example_site (example_app_state ?mw ?mw [] [(''/404'', True)]) ?req S404 None True"
    by simp
  have "renderError example_site (example_app_state ?mw ?mw [] [(''/404'', True)]) ?req S404 None True
     = (Inr example_error_page, example_app_state ?mw None [] [(''/404'', True), (''/404'', False)])"
    by (simp add: renderError.simps example_defs dispatch_defs merge_defs)
  with retry show ?thesis by simp
qed

text \<open>
  C7 as the specification words it does not hold: the modules of the sample site have no
  middleware, the render of its 500 page throws, and the shell gives up after that one
  render, without a retry.
\<close>

theorem renderError_no_retry_counterexample:
  "onRequest (example_module None ''500'') = None
   \<and> renderError_try example_site (example_app None)
       (example_request ''GET'' ''http://example.com/boom'') S500 None False
       (example_page_route ''/500'' ''500'' []) (example_module None ''500'')
     = (Inl (Error ''boom''), example_app_state None None [] [(''/500'', False)])
   \<and> renderError example_site (example_app None)
       (example_request ''GET'' ''http://example.com/boom'') S500 None False
     = (Inr (bodyless S500), example_app_state None None [] [(''/500'', False)])"
  by (simp add: renderError.simps example_defs dispatch_defs merge_defs)

end
